theory Spec2Isabelle
  imports Main "HOL-Library.Sublist"
begin

text \<open>
  A model of napi, a small HTTP control plane: the handlers of routes/route\_system.go
  (listing, starting and stopping service units, reading and writing files, scheduling
  commands) and, of package main, the login handler, the session gate and the router with its
  middlewares. Definitions come first, in the order of the sources; the properties follow.
\<close>

section \<open>Strings: the Go library functions used by the unit parser\<close>

text \<open>
  A Go string is a sequence of bytes; it is modelled as \<^typ>\<open>string\<close>. The functions below
  model \<^verbatim>\<open>strings.Split\<close> (for a one-byte separator), \<^verbatim>\<open>strings.Fields\<close>,
  \<^verbatim>\<open>strings.Contains\<close> and \<^verbatim>\<open>strings.Join\<close> of the Go standard library. White space is
  the ASCII white space of \<^verbatim>\<open>strings.Fields\<close> (tab, line feed, vertical tab, form feed,
  carriage return, space); multi-byte Unicode spaces are outside the model.
\<close>

definition newline :: char where
  "newline = CHR 0x0A"

definition isSpace :: "char \<Rightarrow> bool" where
  "isSpace c = (c = CHR 0x09 \<or> c = CHR 0x0A \<or> c = CHR 0x0B \<or> c = CHR 0x0C \<or> c = CHR 0x0D \<or> c = CHR 0x20)"

fun Split :: "string \<Rightarrow> char \<Rightarrow> string list" where
  "Split [] sep = [[]]"
| "Split (c # cs) sep =
     (if c = sep then [] # Split cs sep
      else (case Split cs sep of [] \<Rightarrow> [[c]] | p # ps \<Rightarrow> (c # p) # ps))"

fun fields_from :: "string \<Rightarrow> string \<Rightarrow> string list" where
  "fields_from cur [] = (if cur = [] then [] else [cur])"
| "fields_from cur (c # cs) =
     (if isSpace c then (if cur = [] then fields_from [] cs else cur # fields_from [] cs)
      else fields_from (cur @ [c]) cs)"

definition Fields :: "string \<Rightarrow> string list" where
  "Fields s = fields_from [] s"

fun Contains :: "string \<Rightarrow> string \<Rightarrow> bool" where
  "Contains [] substr = (substr = [])"
| "Contains (c # cs) substr = (prefix substr (c # cs) \<or> Contains cs substr)"

fun Join :: "string list \<Rightarrow> string \<Rightarrow> string" where
  "Join [] sep = []"
| "Join [x] sep = x"
| "Join (x # y # ys) sep = x @ sep @ Join (y # ys) sep"

section \<open>The unit parser (routes/route\_system.go)\<close>

record Unit =
  UNIT :: string
  LOAD :: string
  ACTIVE :: string
  SUB :: string
  DESCRIPTION :: string

datatype go_error = LaunchError | ExitError nat | PathError string | SyntaxError | UnmarshalTypeError

text \<open>
  The body of the \<^verbatim>\<open>for _, line := range lines\<close> loop of \<^verbatim>\<open>parseUnits\<close>, with the
  slice \<^verbatim>\<open>units\<close> as accumulator. The index reads \<^verbatim>\<open>fields[0..3]\<close> happen only after
  the length check, so they are in range.
\<close>

fun parseUnits_loop :: "string \<Rightarrow> string list \<Rightarrow> Unit list \<Rightarrow> Unit list" where
  "parseUnits_loop unitType [] units = units"
| "parseUnits_loop unitType (line # lines) units =
     (let fields = Fields line in
      if length fields < 5 then parseUnits_loop unitType lines units
      else if \<not> Contains (fields ! 0) unitType then parseUnits_loop unitType lines units
      else parseUnits_loop unitType lines
             (units @ [\<lparr>UNIT = fields ! 0, LOAD = fields ! 1, ACTIVE = fields ! 2,
                        SUB = fields ! 3, DESCRIPTION = Join (drop 4 fields) '' ''\<rparr>]))"

definition parseUnits :: "string \<Rightarrow> string \<Rightarrow> go_error + Unit list" where
  "parseUnits data unitType = Inr (parseUnits_loop unitType (Split data newline) [])"

subsection \<open>The parser as the specification words it\<close>

text \<open>
  The specification describes the parser as a filter over the lines followed by a projection
  of the fields. These three definitions follow its words, to be compared with the loop above.
\<close>

definition spec_line_ok :: "string \<Rightarrow> string list \<Rightarrow> bool" where
  "spec_line_ok sfx fs = (5 \<le> length fs \<and> Contains (hd fs) sfx)"

definition spec_unit_of :: "string list \<Rightarrow> Unit" where
  "spec_unit_of fs =
     \<lparr>UNIT = fs ! 0, LOAD = fs ! 1, ACTIVE = fs ! 2, SUB = fs ! 3,
      DESCRIPTION = Join (drop 4 fs) '' ''\<rparr>"

definition spec_parse :: "string \<Rightarrow> string \<Rightarrow> Unit list" where
  "spec_parse listing sfx =
     map spec_unit_of (filter (spec_line_ok sfx) (map Fields (Split listing newline)))"

section \<open>The operating system as the handlers see it\<close>

text \<open>
  The handlers start processes and read and write files. The outcome of a process is given
  by the environment: whether it could be started, its exit status, and what it wrote,
  in order, on its two output streams. Every call that reaches the operating system is
  recorded in \<open>trace\<close>, so that "no side effect" is the statement that the environment is
  unchanged. \<open>files\<close> gives what reading a path returns. A path is either a regular file
  (or free for one to be created), which keeps what is written to it, or something else, such
  as the device \<^verbatim>\<open>/dev/null\<close>, which accepts a write without keeping the data.
\<close>

datatype stream = Stdout | Stderr

record proc_result =
  launched :: bool
  exit_code :: nat
  chunks :: "(stream \<times> string) list"

datatype effect = Exec "string list" | FileWrite string string | FileRead string

record world =
  procs :: "string list \<Rightarrow> proc_result"
  files :: "string \<rightharpoonup> string"
  writable :: "string \<Rightarrow> bool"
  regular :: "string \<Rightarrow> bool"
  trace :: "effect list"

definition stdout_of :: "proc_result \<Rightarrow> string" where
  "stdout_of p = concat (map snd (filter (\<lambda>c. fst c = Stdout) (chunks p)))"

definition combined_of :: "proc_result \<Rightarrow> string" where
  "combined_of p = concat (map snd (chunks p))"

definition succeeded :: "proc_result \<Rightarrow> bool" where
  "succeeded p = (launched p \<and> exit_code p = 0)"

text \<open>\<^verbatim>\<open>exec.Command(argv...).Output()\<close>: runs the command and returns its standard output.\<close>

definition cmd_Output :: "string list \<Rightarrow> world \<Rightarrow> (go_error + string) \<times> world" where
  "cmd_Output argv wd =
     (let p = procs wd argv; wd' = wd\<lparr>trace := trace wd @ [Exec argv]\<rparr> in
      if \<not> launched p then (Inl LaunchError, wd')
      else if exit_code p \<noteq> 0 then (Inl (ExitError (exit_code p)), wd')
      else (Inr (stdout_of p), wd'))"

text \<open>\<^verbatim>\<open>exec.Command(argv...).Run()\<close>: runs the command and reports only its failure.\<close>

definition cmd_Run :: "string list \<Rightarrow> world \<Rightarrow> go_error option \<times> world" where
  "cmd_Run argv wd =
     (let p = procs wd argv; wd' = wd\<lparr>trace := trace wd @ [Exec argv]\<rparr> in
      if \<not> launched p then (Some LaunchError, wd')
      else if exit_code p \<noteq> 0 then (Some (ExitError (exit_code p)), wd')
      else (None, wd'))"

definition os_WriteFile :: "string \<Rightarrow> string \<Rightarrow> world \<Rightarrow> go_error option \<times> world" where
  "os_WriteFile name data wd =
     (let wd' = wd\<lparr>trace := trace wd @ [FileWrite name data]\<rparr> in
      if \<not> writable wd name then (Some (PathError name), wd')
      else if regular wd name then (None, wd'\<lparr>files := (files wd)(name \<mapsto> data)\<rparr>)
      else (None, wd'))"

definition os_ReadFile :: "string \<Rightarrow> world \<Rightarrow> (go_error + string) \<times> world" where
  "os_ReadFile name wd =
     (let wd' = wd\<lparr>trace := trace wd @ [FileRead name]\<rparr> in
      case files wd name of
        None \<Rightarrow> (Inl (PathError name), wd')
      | Some data \<Rightarrow> (Inr data, wd'))"

text \<open>\<^verbatim>\<open>executeCommand\<close> of routes/route\_system.go.\<close>

definition executeCommand :: "string \<Rightarrow> world \<Rightarrow> (go_error + string) \<times> world" where
  "executeCommand command wd =
     (case cmd_Output [''sh'', ''-c'', command] wd of
        (Inl err, wd') \<Rightarrow> (Inl err, wd')
      | (Inr out, wd') \<Rightarrow> (Inr out, wd'))"

section \<open>HTTP requests and responses\<close>

datatype json =
    JNull
  | JBool bool
  | JNumber int
  | JString string
  | JArray "json list"
  | JObject "(string \<times> json) list"

datatype body = Empty | Text string | Json json

text \<open>
  A request carries the query parameters in their order, the first JSON value of its body
  (\<open>None\<close> when the body does not start with a well-formed JSON value), the address of
  the client, the values of the session that its signed session cookie decodes to (the empty
  map when it has none), and its time of arrival in seconds.
\<close>

record request =
  req_method :: string
  req_path :: string
  req_query :: "(string \<times> string) list"
  req_headers :: "(string \<times> string) list"
  req_body :: "json option"
  req_remote :: string
  req_session :: "string \<rightharpoonup> string"
  req_time :: nat

text \<open>
  The response writer: the status (200 unless a handler sets another), the headers, the body,
  and the session values of the session cookie last written by \<^verbatim>\<open>session.Save\<close>, if any.
\<close>

record response =
  status :: nat
  hdrs :: "(string \<times> string) list"
  body :: body
  cookie :: "(string \<rightharpoonup> string) option"

definition StatusOK :: nat where "StatusOK = 200"
definition StatusNoContent :: nat where "StatusNoContent = 204"
definition StatusBadRequest :: nat where "StatusBadRequest = 400"
definition StatusUnauthorized :: nat where "StatusUnauthorized = 401"
definition StatusNotFound :: nat where "StatusNotFound = 404"
definition StatusMethodNotAllowed :: nat where "StatusMethodNotAllowed = 405"
definition StatusTooManyRequests :: nat where "StatusTooManyRequests = 429"
definition StatusInternalServerError :: nat where "StatusInternalServerError = 500"

definition new_response :: response where
  "new_response = \<lparr>status = StatusOK, hdrs = [], body = Empty, cookie = None\<rparr>"

fun assoc_get :: "(string \<times> string) list \<Rightarrow> string \<Rightarrow> string" where
  "assoc_get [] k = []"
| "assoc_get ((k', v) # kvs) k = (if k' = k then v else assoc_get kvs k)"

text \<open>\<^verbatim>\<open>r.URL.Query().Get(key)\<close>: the first value of the key, the empty string if it has none.\<close>

definition Query_Get :: "request \<Rightarrow> string \<Rightarrow> string" where
  "Query_Get r k = assoc_get (req_query r) k"

definition Header_Set :: "string \<Rightarrow> string \<Rightarrow> response \<Rightarrow> response" where
  "Header_Set k v w = w\<lparr>hdrs := (k, v) # filter (\<lambda>h. fst h \<noteq> k) (hdrs w)\<rparr>"

definition WriteHeader :: "nat \<Rightarrow> response \<Rightarrow> response" where
  "WriteHeader code w = w\<lparr>status := code\<rparr>"

text \<open>\<^verbatim>\<open>http.Error\<close>: a plain-text body with the given status.\<close>

definition http_Error :: "response \<Rightarrow> string \<Rightarrow> nat \<Rightarrow> response" where
  "http_Error w msg code =
     (Header_Set ''X-Content-Type-Options'' ''nosniff''
       (Header_Set ''Content-Type'' ''text/plain; charset=utf-8'' w))
       \<lparr>status := code, body := Text msg\<rparr>"

text \<open>
  \<^verbatim>\<open>json.NewEncoder(w).Encode(v)\<close>: the body is the JSON value that the written text
  denotes. The encoder coerces every string to valid UTF-8, replacing each byte that does not
  begin a well-formed UTF-8 sequence by the replacement character U+FFFD (the bytes
  \<^verbatim>\<open>EF BF BD\<close>). \<open>rune_size\<close> is the length of the well-formed sequence at the head of
  a string, 0 when there is none, as \<^verbatim>\<open>utf8.DecodeRuneInString\<close> finds it;
  \<open>ValidString\<close> is \<^verbatim>\<open>utf8.ValidString\<close>.
\<close>

definition byte_in :: "nat \<Rightarrow> nat \<Rightarrow> char \<Rightarrow> bool" where
  "byte_in lo hi c = (lo \<le> of_char c \<and> of_char c \<le> hi)"

definition rune_size :: "string \<Rightarrow> nat" where
  "rune_size s =
     (case s of
        [] \<Rightarrow> 0
      | b0 # s1 \<Rightarrow>
          if byte_in 0x00 0x7F b0 then 1
          else (case s1 of
            [] \<Rightarrow> 0
          | b1 # s2 \<Rightarrow>
              if byte_in 0xC2 0xDF b0 then (if byte_in 0x80 0xBF b1 then 2 else 0)
              else (case s2 of
                [] \<Rightarrow> 0
              | b2 # s3 \<Rightarrow>
                  if byte_in 0xE0 0xEF b0 then
                    (if (if b0 = CHR 0xE0 then byte_in 0xA0 0xBF b1
                         else if b0 = CHR 0xED then byte_in 0x80 0x9F b1
                         else byte_in 0x80 0xBF b1) \<and> byte_in 0x80 0xBF b2 then 3 else 0)
                  else (case s3 of
                    [] \<Rightarrow> 0
                  | b3 # s4 \<Rightarrow>
                      if byte_in 0xF0 0xF4 b0 \<and>
                         (if b0 = CHR 0xF0 then byte_in 0x90 0xBF b1
                          else if b0 = CHR 0xF4 then byte_in 0x80 0x8F b1
                          else byte_in 0x80 0xBF b1) \<and>
                         byte_in 0x80 0xBF b2 \<and> byte_in 0x80 0xBF b3 then 4 else 0))))"

function ToValidUTF8 :: "string \<Rightarrow> string" where
  "ToValidUTF8 [] = []"
| "ToValidUTF8 (b # bs) =
     (if rune_size (b # bs) = 0 then [CHR 0xEF, CHR 0xBF, CHR 0xBD] @ ToValidUTF8 bs
      else b # take (rune_size (b # bs) - 1) bs @ ToValidUTF8 (drop (rune_size (b # bs) - 1) bs))"
  by pat_completeness auto
termination
  by (relation "measure length") auto


primrec coerce :: "json \<Rightarrow> json" where
  "coerce JNull = JNull"
| "coerce (JBool b) = JBool b"
| "coerce (JNumber n) = JNumber n"
| "coerce (JString s) = JString (ToValidUTF8 s)"
| "coerce (JArray vs) = JArray (map coerce vs)"
| "coerce (JObject kvs) = JObject (map (map_prod ToValidUTF8 coerce) kvs)"

definition Encode :: "response \<Rightarrow> json \<Rightarrow> response" where
  "Encode w v = w\<lparr>body := Json (coerce v)\<rparr>"

definition unit_json :: "Unit \<Rightarrow> json" where
  "unit_json u =
     JObject [(''UNIT'', JString (UNIT u)), (''LOAD'', JString (LOAD u)),
              (''ACTIVE'', JString (ACTIVE u)), (''SUB'', JString (SUB u)),
              (''DESCRIPTION'', JString (DESCRIPTION u))]"

section \<open>The command handlers (routes/route\_system.go)\<close>

definition ListServices :: "request \<Rightarrow> response \<Rightarrow> world \<Rightarrow> response \<times> world" where
  "ListServices r w wd =
     (case executeCommand ''systemctl --user list-units --type=service --all'' wd of
        (Inl err, wd1) \<Rightarrow> (http_Error w ''Error fetching services'' StatusInternalServerError, wd1)
      | (Inr serviceStdout, wd1) \<Rightarrow>
     (case parseUnits serviceStdout ''.service'' of
        Inl err \<Rightarrow> (http_Error w ''Error parsing services output'' StatusInternalServerError, wd1)
      | Inr services \<Rightarrow>
     (case executeCommand ''systemctl --user list-units --type=socket --all'' wd1 of
        (Inl err, wd2) \<Rightarrow> (http_Error w ''Error fetching sockets'' StatusInternalServerError, wd2)
      | (Inr socketStdout, wd2) \<Rightarrow>
     (case parseUnits socketStdout ''.socket'' of
        Inl err \<Rightarrow> (http_Error w ''Error parsing sockets output'' StatusInternalServerError, wd2)
      | Inr sockets \<Rightarrow>
          (Encode (Header_Set ''Content-Type'' ''application/json'' w)
             (JObject [(''services'', JArray (map unit_json services)),
                       (''sockets'', JArray (map unit_json sockets))]), wd2)))))"

definition StartService :: "request \<Rightarrow> response \<Rightarrow> world \<Rightarrow> response \<times> world" where
  "StartService r w wd =
     (let service = Query_Get r ''target'' in
      if service = '''' then (http_Error w ''Service name is required'' StatusBadRequest, wd)
      else (case cmd_Run [''systemctl'', ''--user'', ''start'', service] wd of
              (Some err, wd') \<Rightarrow>
                (http_Error w (''Error starting service '' @ service) StatusInternalServerError, wd')
            | (None, wd') \<Rightarrow>
                (Encode (Header_Set ''Content-Type'' ''application/json'' w)
                   (JObject [(''message'', JString (''Service '' @ service @ '' started successfully''))]),
                 wd')))"

definition StopService :: "request \<Rightarrow> response \<Rightarrow> world \<Rightarrow> response \<times> world" where
  "StopService r w wd =
     (let service = Query_Get r ''target'' in
      if service = '''' then (http_Error w ''Service name is required'' StatusBadRequest, wd)
      else (case cmd_Run [''systemctl'', ''--user'', ''stop'', service] wd of
              (Some err, wd') \<Rightarrow>
                (http_Error w (''Error stopping service '' @ service) StatusInternalServerError, wd')
            | (None, wd') \<Rightarrow>
                (Encode (Header_Set ''Content-Type'' ''application/json'' w)
                   (JObject [(''message'', JString (''Service '' @ service @ '' stopped successfully''))]),
                 wd')))"

definition RestartService :: "request \<Rightarrow> response \<Rightarrow> world \<Rightarrow> response \<times> world" where
  "RestartService r w wd =
     (let service = Query_Get r ''target'' in
      if service = '''' then (http_Error w ''Service name is required'' StatusBadRequest, wd)
      else (case cmd_Run [''systemctl'', ''--user'', ''restart'', service] wd of
              (Some err, wd') \<Rightarrow>
                (http_Error w (''Error restarting service '' @ service) StatusInternalServerError, wd')
            | (None, wd') \<Rightarrow>
                (Encode (Header_Set ''Content-Type'' ''application/json'' w)
                   (JObject [(''message'', JString (''Service '' @ service @ '' restarted successfully''))]),
                 wd')))"

definition WriteFile :: "request \<Rightarrow> response \<Rightarrow> world \<Rightarrow> response \<times> world" where
  "WriteFile r w wd =
     (let filename = Query_Get r ''filename'';
          filepath = Query_Get r ''filepath'';
          filecontent = Query_Get r ''filecontent'' in
      if filename = '''' \<or> filepath = '''' \<or> filecontent = '''' then
        (http_Error w ''Filename, filepath, and filecontent are required'' StatusBadRequest, wd)
      else
        (let fullPath = filepath @ ''/'' @ filename in
         case os_WriteFile fullPath filecontent wd of
           (Some err, wd') \<Rightarrow>
             (http_Error w (''Error saving file '' @ filename @ '' at '' @ filepath)
                StatusInternalServerError, wd')
         | (None, wd') \<Rightarrow>
             (Encode (Header_Set ''Content-Type'' ''application/json'' w)
                (JObject [(''message'',
                   JString (''File '' @ filename @ '' saved successfully at '' @ filepath))]),
              wd')))"

definition ReadFile :: "request \<Rightarrow> response \<Rightarrow> world \<Rightarrow> response \<times> world" where
  "ReadFile r w wd =
     (let filename = Query_Get r ''filename'';
          filepath = Query_Get r ''filepath'' in
      if filename = '''' \<or> filepath = '''' then
        (http_Error w ''Filename and filepath are required'' StatusBadRequest, wd)
      else
        (let fullPath = filepath @ ''/'' @ filename in
         case os_ReadFile fullPath wd of
           (Inl err, wd') \<Rightarrow>
             (http_Error w (''Error reading file '' @ filename @ '' at '' @ filepath)
                StatusInternalServerError, wd')
         | (Inr fileContent, wd') \<Rightarrow>
             (Encode (Header_Set ''Content-Type'' ''application/json'' w)
                (JObject [(''content'', JString fileContent)]), wd')))"

definition dquote :: char where
  "dquote = CHR 0x22"

definition ScheduleTask :: "request \<Rightarrow> response \<Rightarrow> world \<Rightarrow> response \<times> world" where
  "ScheduleTask r w wd =
     (let time = Query_Get r ''time'';
          command = Query_Get r ''command'' in
      if time = '''' \<or> command = '''' then
        (http_Error w ''Both time and command are required'' StatusBadRequest, wd)
      else
        (let atCommand = ''echo '' @ [dquote] @ command @ [dquote] @ '' | at '' @ time in
         case executeCommand atCommand wd of
           (Inl err, wd') \<Rightarrow>
             (http_Error w (''Error scheduling task at '' @ time) StatusInternalServerError, wd')
         | (Inr out, wd') \<Rightarrow>
             (Encode (Header_Set ''Content-Type'' ''application/json'' w)
                (JObject [(''message'', JString (''Task scheduled at '' @ time))]), wd')))"

section \<open>Configuration, credentials and sessions (package main)\<close>

text \<open>
  The process-wide variables \<^verbatim>\<open>USERNAME\<close>, \<^verbatim>\<open>PASSWORD\<close> and \<^verbatim>\<open>VERSION\<close>, set once by
  \<^verbatim>\<open>init\<close>, which stops the process when one of them is empty.
\<close>

record config =
  USERNAME :: string
  PASSWORD :: string
  VERSION :: string

definition init_ok :: "config \<Rightarrow> bool" where
  "init_ok cfg = (\<not> (USERNAME cfg = '''' \<or> PASSWORD cfg = '''' \<or> VERSION cfg = ''''))"

type_synonym session_values = "string \<rightharpoonup> string"

text \<open>
  \<^verbatim>\<open>store.Get(r, "session")\<close> on the cookie store: the first call for a request decodes
  the request's session cookie (a new, empty session when there is none); a later call for
  the same request returns the session object registered by the first one.
\<close>

definition store_Get :: "request \<Rightarrow> session_values option \<Rightarrow> session_values" where
  "store_Get r registered = (case registered of None \<Rightarrow> req_session r | Some session \<Rightarrow> session)"

text \<open>
  \<^verbatim>\<open>session.Save(r, w)\<close>: writes the session cookie; the last one written is the one kept.
  The store is taken to have its signing key (\<^verbatim>\<open>SESSION_KEY\<close>), so that saving succeeds;
  the handlers ignore the error that it returns otherwise. The line that \<^verbatim>\<open>loginHandler\<close>
  writes to the log file is not modelled.
\<close>

definition session_Save :: "session_values \<Rightarrow> response \<Rightarrow> response" where
  "session_Save session w = w\<lparr>cookie := Some session\<rparr>"

text \<open>The cookie store never assigns a session identifier: \<^verbatim>\<open>session.ID\<close> is empty.\<close>

definition session_ID :: string where
  "session_ID = ''''"

subsection \<open>Decoding the login payload\<close>

text \<open>
  \<^verbatim>\<open>json.NewDecoder(r.Body).Decode(&creds)\<close> for the struct with the string fields
  \<^verbatim>\<open>username\<close> and \<^verbatim>\<open>password\<close>, as the Go library documents it: a body that does not
  start with a JSON value is a syntax error; \<^verbatim>\<open>null\<close> leaves the struct as it is; an object
  sets the fields whose keys match the field names under case folding, later keys overriding
  earlier ones, ignores the other keys and a \<^verbatim>\<open>null\<close> value, and reports a type error
  for a value of a field that is not a string; any other value is a type error. A field that
  the object does not mention keeps its zero value, the empty string.

  The folding is the library's: the ASCII letters without regard to case and, under Unicode
  simple folding, the long s U+017F (the bytes \<^verbatim>\<open>C5 BF\<close>) for \<^verbatim>\<open>s\<close> and the Kelvin sign
  U+212A (the bytes \<^verbatim>\<open>E2 84 AA\<close>) for \<^verbatim>\<open>k\<close>. No other character folds to an ASCII
  letter, so \<open>foldName\<close> leaves every other byte as it is.
\<close>

record creds =
  Username :: string
  Password :: string

definition ascii_lower :: "char \<Rightarrow> char" where
  "ascii_lower c =
     (case find (\<lambda>p. fst p = c) (zip ''ABCDEFGHIJKLMNOPQRSTUVWXYZ'' ''abcdefghijklmnopqrstuvwxyz'') of
        None \<Rightarrow> c
      | Some p \<Rightarrow> snd p)"

function foldName :: "string \<Rightarrow> string" where
  "foldName [] = []"
| "foldName (c # cs) =
     (if c = CHR 0xC5 \<and> take 1 cs = [CHR 0xBF] then CHR ''s'' # foldName (drop 1 cs)
      else if c = CHR 0xE2 \<and> take 2 cs = [CHR 0x84, CHR 0xAA] then CHR ''k'' # foldName (drop 2 cs)
      else ascii_lower c # foldName cs)"
  by pat_completeness auto
termination
  by (relation "measure length") auto

fun decode_object :: "(string \<times> json) list \<Rightarrow> creds \<Rightarrow> go_error option \<Rightarrow> creds \<times> go_error option" where
  "decode_object [] c e = (c, e)"
| "decode_object ((k, v) # kvs) c e =
     (if foldName k = ''username'' then
        (case v of
           JString s \<Rightarrow> decode_object kvs (c\<lparr>Username := s\<rparr>) e
         | JNull \<Rightarrow> decode_object kvs c e
         | _ \<Rightarrow> decode_object kvs c (if e = None then Some UnmarshalTypeError else e))
      else if foldName k = ''password'' then
        (case v of
           JString s \<Rightarrow> decode_object kvs (c\<lparr>Password := s\<rparr>) e
         | JNull \<Rightarrow> decode_object kvs c e
         | _ \<Rightarrow> decode_object kvs c (if e = None then Some UnmarshalTypeError else e))
      else decode_object kvs c e)"

definition Decode :: "json option \<Rightarrow> go_error + creds" where
  "Decode b =
     (case b of
        None \<Rightarrow> Inl SyntaxError
      | Some JNull \<Rightarrow> Inr \<lparr>Username = '''', Password = ''''\<rparr>
      | Some (JObject kvs) \<Rightarrow>
          (case decode_object kvs \<lparr>Username = '''', Password = ''''\<rparr> None of
             (c, None) \<Rightarrow> Inr c
           | (c, Some e) \<Rightarrow> Inl e)
      | Some _ \<Rightarrow> Inl UnmarshalTypeError)"

text \<open>
  The bodies that the decoder rejects, in words: no well-formed JSON value at the start of the
  body, a value that is neither an object nor \<^verbatim>\<open>null\<close>, or an object in which a member
  for \<^verbatim>\<open>username\<close> or \<^verbatim>\<open>password\<close> has a value that is neither a string nor
  \<^verbatim>\<open>null\<close>. The proofs compare this description with \<open>Decode\<close>.
\<close>

definition string_or_null :: "json \<Rightarrow> bool" where
  "string_or_null v = (case v of JString s \<Rightarrow> True | JNull \<Rightarrow> True | _ \<Rightarrow> False)"

definition mistyped_member :: "string \<times> json \<Rightarrow> bool" where
  "mistyped_member kv =
     ((foldName (fst kv) = ''username'' \<or> foldName (fst kv) = ''password'') \<and>
      \<not> string_or_null (snd kv))"

definition undecodable :: "json option \<Rightarrow> bool" where
  "undecodable b =
     (case b of
        None \<Rightarrow> True
      | Some JNull \<Rightarrow> False
      | Some (JObject kvs) \<Rightarrow> list_ex mistyped_member kvs
      | Some _ \<Rightarrow> True)"

subsection \<open>The handlers of package main\<close>

definition loginHandler :: "config \<Rightarrow> request \<Rightarrow> response \<Rightarrow> response" where
  "loginHandler cfg r w =
     (case Decode (req_body r) of
        Inl err \<Rightarrow> http_Error w ''Invalid request payload'' StatusBadRequest
      | Inr creds \<Rightarrow>
          if Username creds = USERNAME cfg \<and> Password creds = PASSWORD cfg then
            (let session = store_Get r None;
                 session = Map.empty;
                 w = session_Save session w;
                 session = store_Get r (Some session);
                 session = session(''user'' \<mapsto> USERNAME cfg);
                 w = session_Save session w;
                 w = Header_Set ''Content-Type'' ''application/json'' w
             in Encode w (JObject [(''message'', JString ''Login successful''),
                                   (''sessionId'', JString session_ID)]))
          else http_Error w ''Invalid username or password'' StatusUnauthorized)"

definition versionHandler :: "config \<Rightarrow> request \<Rightarrow> response \<Rightarrow> response" where
  "versionHandler cfg r w =
     Encode (Header_Set ''Content-Type'' ''application/json'' w)
       (JObject [(''version'', JString (VERSION cfg))])"

definition optionsHandler :: "request \<Rightarrow> response \<Rightarrow> response" where
  "optionsHandler r w =
     WriteHeader StatusNoContent
       (Header_Set ''Access-Control-Allow-Headers'' ''Content-Type, Authorization''
         (Header_Set ''Access-Control-Allow-Methods'' ''GET, POST, OPTIONS'' w))"

section \<open>The server state and the middlewares\<close>

record Rate =
  Period :: nat
  Limit :: nat

type_synonym buckets = "string \<rightharpoonup> nat \<times> nat"

record server =
  env :: world
  generalLimiterStore :: buckets
  loginLimiterStore :: buckets
  systemLimiterStore :: buckets

type_synonym handler = "request \<Rightarrow> response \<Rightarrow> server \<Rightarrow> response \<times> server"

definition generalRate :: Rate where
  "generalRate = \<lparr>Period = 1 * 60, Limit = 10\<rparr>"

definition loginRate :: Rate where
  "loginRate = \<lparr>Period = 10 * 60, Limit = 25\<rparr>"

definition systemRate :: Rate where
  "systemRate = \<lparr>Period = 1 * 60, Limit = 70\<rparr>"

text \<open>
  Modelled from the spec: the rate limiter itself (\<^verbatim>\<open>limiter.New\<close>, the in-memory store
  and \<^verbatim>\<open>stdlib.NewMiddleware\<close> of the library github.com/ulule/limiter/v3) is not among the
  sources; only its configuration is. The specification describes a bucket "keyed by client
  identity (address), holding a rolling count against a period+limit", a "fixed window", and
  says that "exceeding the bucket fails the request with a rate-limit error (standard too many
  requests signal) before the handler runs". A bucket is the count of the requests of its
  window and the time at which the window ends; a request that arrives when the client has
  no bucket, or after the window has ended, opens a window of one period that it is the first
  request of. The limit is reached when the count exceeds it.
\<close>

definition limiter_Get :: "Rate \<Rightarrow> nat \<Rightarrow> string \<Rightarrow> buckets \<Rightarrow> bool \<times> buckets" where
  "limiter_Get rate now key store =
     (let bucket = (case store key of
                      None \<Rightarrow> (1, now + Period rate)
                    | Some (count, expiration) \<Rightarrow>
                        if now < expiration then (count + 1, expiration)
                        else (1, now + Period rate))
      in (Limit rate < fst bucket, store(key \<mapsto> bucket)))"

definition limiter_Handler ::
  "Rate \<Rightarrow> (server \<Rightarrow> buckets) \<Rightarrow> (buckets \<Rightarrow> server \<Rightarrow> server) \<Rightarrow> handler \<Rightarrow> handler" where
  "limiter_Handler rate get put next r w s =
     (case limiter_Get rate (req_time r) (req_remote r) (get s) of
        (reached, store') \<Rightarrow>
          if reached then (http_Error w ''Limit exceeded'' StatusTooManyRequests, put store' s)
          else next r w (put store' s))"

definition generalLimiterMiddleware :: "handler \<Rightarrow> handler" where
  "generalLimiterMiddleware =
     limiter_Handler generalRate generalLimiterStore (\<lambda>b s. s\<lparr>generalLimiterStore := b\<rparr>)"

definition loginLimiterMiddleware :: "handler \<Rightarrow> handler" where
  "loginLimiterMiddleware =
     limiter_Handler loginRate loginLimiterStore (\<lambda>b s. s\<lparr>loginLimiterStore := b\<rparr>)"

definition systemLimiterMiddleware :: "handler \<Rightarrow> handler" where
  "systemLimiterMiddleware =
     limiter_Handler systemRate systemLimiterStore (\<lambda>b s. s\<lparr>systemLimiterStore := b\<rparr>)"

text \<open>\<^verbatim>\<open>isAuthenticated\<close>: the session gate.\<close>

definition isAuthenticated :: "handler \<Rightarrow> handler" where
  "isAuthenticated next r w s =
     (let session = store_Get r None in
      if session ''user'' \<noteq> None then next r w s
      else (http_Error w ''Unauthorized'' StatusUnauthorized, s))"

definition squote :: char where
  "squote = CHR 0x27"

definition securityHeadersMiddleware :: "handler \<Rightarrow> handler" where
  "securityHeadersMiddleware next r w s =
     next r
       (Header_Set ''X-XSS-Protection'' ''1; mode=block''
       (Header_Set ''X-Frame-Options'' ''DENY''
       (Header_Set ''X-Content-Type-Options'' ''nosniff''
       (Header_Set ''Strict-Transport-Security'' ''max-age=63072000; includeSubDomains; preload''
       (Header_Set ''Content-Security-Policy'' (''default-src '' @ [squote] @ ''self'' @ [squote]) w))))) s"

text \<open>
  \<^verbatim>\<open>cors.Handler(corsOptions)\<close> of the library github.com/go-chi/cors: a preflight request
  (method \<^verbatim>\<open>OPTIONS\<close> with the header \<^verbatim>\<open>Access-Control-Request-Method\<close>) is answered by the
  middleware itself and goes no further; any other request is passed on. The CORS response
  headers are not modelled.
\<close>

definition is_preflight :: "request \<Rightarrow> bool" where
  "is_preflight r =
     (req_method r = ''OPTIONS'' \<and> assoc_get (req_headers r) ''Access-Control-Request-Method'' \<noteq> '''')"

definition cors_Handler :: "handler \<Rightarrow> handler" where
  "cors_Handler next r w s =
     (if is_preflight r then (WriteHeader StatusOK w, s) else next r w s)"

section \<open>The router\<close>

text \<open>
  The router of the library github.com/gorilla/mux, as far as the program uses it. A route
  is a path, the methods it accepts, the middlewares wrapped around its handler, and the
  handler; the router has its own middlewares, added by \<^verbatim>\<open>Use\<close>. The first route whose path
  and method both match the request serves it, inside the middlewares of the router (the
  first added outermost) and then those of the route. A request whose path matches some
  route but whose method matches none is answered 405, any other unmatched request 404; the
  middlewares of the router do not run for an unmatched request. Request paths are taken to be
  in canonical form (the library redirects a request for any other path to the canonical
  one before matching).
\<close>

datatype middleware =
    M_cors
  | M_securityHeaders
  | M_generalLimiter
  | M_loginLimiter
  | M_systemLimiter
  | M_isAuthenticated

datatype endpoint =
    E_loginHandler
  | E_versionHandler
  | E_optionsHandler
  | E_ListServices
  | E_StartService
  | E_StopService
  | E_RestartService
  | E_WriteFile
  | E_ReadFile
  | E_ScheduleTask

record route =
  rt_path :: string
  rt_methods :: "string list"
  rt_middlewares :: "middleware list"
  rt_endpoint :: endpoint

record router =
  middlewares :: "middleware list"
  routes :: "route list"

definition NewRouter :: router where
  "NewRouter = \<lparr>middlewares = [], routes = []\<rparr>"

definition Use :: "middleware \<Rightarrow> router \<Rightarrow> router" where
  "Use m r = r\<lparr>middlewares := middlewares r @ [m]\<rparr>"

definition Handle :: "string \<Rightarrow> middleware list \<Rightarrow> endpoint \<Rightarrow> string list \<Rightarrow> router \<Rightarrow> router" where
  "Handle p ms e methods r =
     r\<lparr>routes := routes r @ [\<lparr>rt_path = p, rt_methods = methods, rt_middlewares = ms, rt_endpoint = e\<rparr>]\<rparr>"

text \<open>
  \<^verbatim>\<open>r.PathPrefix(prefix).Subrouter()\<close>, once the subrouter is filled: its routes, under the
  prefix and inside the subrouter's own middlewares, are routes of the parent.
\<close>

definition Subrouter :: "string \<Rightarrow> router \<Rightarrow> router \<Rightarrow> router" where
  "Subrouter pfx sub r =
     r\<lparr>routes := routes r @
          map (\<lambda>x. x\<lparr>rt_path := pfx @ rt_path x, rt_middlewares := middlewares sub @ rt_middlewares x\<rparr>)
              (routes sub)\<rparr>"

text \<open>The router that \<^verbatim>\<open>main\<close> builds, call by call.\<close>

definition main_router :: router where
  "main_router =
     (let r = NewRouter;
          r = Use M_cors r;
          r = Use M_securityHeaders r;
          r = Handle ''/login'' [M_loginLimiter] E_loginHandler [''POST'', ''OPTIONS''] r;
          r = Handle ''/version'' [M_isAuthenticated] E_versionHandler [''GET'', ''OPTIONS''] r;
          r = Handle ''/login'' [] E_optionsHandler [''OPTIONS''] r;
          r = Handle ''/version'' [] E_optionsHandler [''OPTIONS''] r;
          r = Use M_generalLimiter r
      in r)"

text \<open>\<^verbatim>\<open>RegisterSystemRoutes\<close> of routes/route\_system.go.\<close>

definition RegisterSystemRoutes :: "router \<Rightarrow> router" where
  "RegisterSystemRoutes r =
     (let systemRouter = NewRouter;
          systemRouter = Use M_systemLimiter systemRouter;
          systemRouter = Handle ''/services'' [] E_ListServices [''GET''] systemRouter;
          systemRouter = Handle ''/services/start'' [] E_StartService [''POST''] systemRouter;
          systemRouter = Handle ''/services/stop'' [] E_StopService [''POST''] systemRouter;
          systemRouter = Handle ''/services/restart'' [] E_RestartService [''POST''] systemRouter;
          systemRouter = Handle ''/write'' [] E_WriteFile [''POST''] systemRouter;
          systemRouter = Handle ''/read'' [] E_ReadFile [''GET''] systemRouter;
          systemRouter = Handle ''/at'' [] E_ScheduleTask [''POST''] systemRouter
      in Subrouter ''/system'' systemRouter r)"

definition on_env :: "(request \<Rightarrow> response \<Rightarrow> world \<Rightarrow> response \<times> world) \<Rightarrow> handler" where
  "on_env h r w s = (case h r w (env s) of (w', wd') \<Rightarrow> (w', s\<lparr>env := wd'\<rparr>))"

fun endpoint_handler :: "config \<Rightarrow> endpoint \<Rightarrow> handler" where
  "endpoint_handler cfg E_loginHandler = (\<lambda>r w s. (loginHandler cfg r w, s))"
| "endpoint_handler cfg E_versionHandler = (\<lambda>r w s. (versionHandler cfg r w, s))"
| "endpoint_handler cfg E_optionsHandler = (\<lambda>r w s. (optionsHandler r w, s))"
| "endpoint_handler cfg E_ListServices = on_env ListServices"
| "endpoint_handler cfg E_StartService = on_env StartService"
| "endpoint_handler cfg E_StopService = on_env StopService"
| "endpoint_handler cfg E_RestartService = on_env RestartService"
| "endpoint_handler cfg E_WriteFile = on_env WriteFile"
| "endpoint_handler cfg E_ReadFile = on_env ReadFile"
| "endpoint_handler cfg E_ScheduleTask = on_env ScheduleTask"

fun middleware_fn :: "middleware \<Rightarrow> handler \<Rightarrow> handler" where
  "middleware_fn M_cors = cors_Handler"
| "middleware_fn M_securityHeaders = securityHeadersMiddleware"
| "middleware_fn M_generalLimiter = generalLimiterMiddleware"
| "middleware_fn M_loginLimiter = loginLimiterMiddleware"
| "middleware_fn M_systemLimiter = systemLimiterMiddleware"
| "middleware_fn M_isAuthenticated = isAuthenticated"

fun wrap :: "middleware list \<Rightarrow> handler \<Rightarrow> handler" where
  "wrap [] h = h"
| "wrap (m # ms) h = middleware_fn m (wrap ms h)"

definition route_matches :: "request \<Rightarrow> route \<Rightarrow> bool" where
  "route_matches r x = (rt_path x = req_path r \<and> List.member (rt_methods x) (req_method r))"

definition ServeHTTP :: "config \<Rightarrow> router \<Rightarrow> request \<Rightarrow> server \<Rightarrow> response \<times> server" where
  "ServeHTTP cfg rt r s =
     (case find (route_matches r) (routes rt) of
        Some x \<Rightarrow>
          wrap (middlewares rt @ rt_middlewares x) (endpoint_handler cfg (rt_endpoint x)) r new_response s
      | None \<Rightarrow>
          if list_ex (\<lambda>x. rt_path x = req_path r) (routes rt)
          then (WriteHeader StatusMethodNotAllowed new_response, s)
          else (http_Error new_response ''404 page not found'' StatusNotFound, s))"

text \<open>Serving a sequence of requests, one after the other.\<close>

fun serve_all :: "config \<Rightarrow> router \<Rightarrow> request list \<Rightarrow> server \<Rightarrow> response list \<times> server" where
  "serve_all cfg rt [] s = ([], s)"
| "serve_all cfg rt (r # rs) s =
     (case ServeHTTP cfg rt r s of
        (w, s') \<Rightarrow> (case serve_all cfg rt rs s' of (ws, s'') \<Rightarrow> (w # ws, s'')))"

text \<open>
  The session a client holds after a response: the one of the cookie that the response
  wrote, otherwise the one it held. The sessions that can exist are those that the server
  wrote in answer to a request carrying a session that could exist; the cookie is signed, so
  a client cannot make one up.
\<close>

definition next_session :: "session_values \<Rightarrow> response \<Rightarrow> session_values" where
  "next_session held w = (case cookie w of None \<Rightarrow> held | Some session \<Rightarrow> session)"

inductive_set issued :: "config \<Rightarrow> router \<Rightarrow> session_values set" for cfg :: config and rt :: router where
  no_cookie: "Map.empty \<in> issued cfg rt"
| answered: "held \<in> issued cfg rt \<Longrightarrow> req_session r = held \<Longrightarrow> ServeHTTP cfg rt r s = (w, s') \<Longrightarrow>
     next_session held w \<in> issued cfg rt"

subsection \<open>The required parameters, as the specification lists them\<close>

text \<open>
  The table of the HTTP surface in the specification gives, for each command handler, the
  query parameters it requires.
\<close>

fun spec_required :: "endpoint \<Rightarrow> string list" where
  "spec_required E_StartService = [''target'']"
| "spec_required E_StopService = [''target'']"
| "spec_required E_RestartService = [''target'']"
| "spec_required E_WriteFile = [''filename'', ''filepath'', ''filecontent'']"
| "spec_required E_ReadFile = [''filename'', ''filepath'']"
| "spec_required E_ScheduleTask = [''time'', ''command'']"
| "spec_required _ = []"

subsection \<open>The identity a session may carry\<close>

definition identity_ok :: "config \<Rightarrow> session_values \<Rightarrow> bool" where
  "identity_ok cfg session = (session ''user'' = None \<or> session ''user'' = Some (USERNAME cfg))"

definition cookie_ok :: "config \<Rightarrow> response \<Rightarrow> bool" where
  "cookie_ok cfg w = (case cookie w of None \<Rightarrow> True | Some session \<Rightarrow> identity_ok cfg session)"

subsection \<open>Requests that the general limiter counts\<close>

text \<open>
  A request reaches the general limiter when some route of the router matches it (the
  router's middlewares do not run otherwise) and the CORS middleware, which comes first, does
  not answer it as a preflight. A client's window is open at a time when the client has a
  bucket whose window has not ended by then.
\<close>

definition counted :: "router \<Rightarrow> request \<Rightarrow> bool" where
  "counted rt r = (find (route_matches r) (routes rt) \<noteq> None \<and> \<not> is_preflight r)"

definition window_open :: "buckets \<Rightarrow> string \<Rightarrow> nat \<Rightarrow> bool" where
  "window_open store key now = (case store key of None \<Rightarrow> False | Some (count, expiration) \<Rightarrow> now < expiration)"

section \<open>Concrete inputs used by the examples\<close>

definition ex_listing :: string where
  "ex_listing =
     ''  UNIT LOAD ACTIVE SUB DESCRIPTION'' @ [newline] @
     ''  a.service loaded active running A   daemon'' @ [newline] @
     ''  foo.socket loaded active listening Foo Socket'' @ [newline] @
     ''b.service loaded inactive dead B'' @ [newline] @
     ''c.service loaded active'' @ [newline]"

definition ex_proc :: proc_result where
  "ex_proc = \<lparr>launched = True, exit_code = 0, chunks = [(Stdout, ''a''), (Stderr, ''b'')]\<rparr>"

definition ex_world :: world where
  "ex_world = \<lparr>procs = (\<lambda>argv. ex_proc), files = [''/dev/null'' \<mapsto> ''''],
                writable = (\<lambda>name. True), regular = (\<lambda>name. name \<noteq> ''/dev/null''), trace = []\<rparr>"

definition ex_config :: config where
  "ex_config = \<lparr>USERNAME = ''admin'', PASSWORD = ''secret'', VERSION = ''1.0''\<rparr>"

definition ex_server :: server where
  "ex_server = \<lparr>env = ex_world, generalLimiterStore = Map.empty, loginLimiterStore = Map.empty,
                 systemLimiterStore = Map.empty\<rparr>"

definition ex_request :: request where
  "ex_request = \<lparr>req_method = ''GET'', req_path = ''/'', req_query = [], req_headers = [],
                  req_body = None, req_remote = ''10.0.0.1'', req_session = Map.empty, req_time = 0\<rparr>"

definition ex_world_sockets_fail :: world where
  "ex_world_sockets_fail =
     \<lparr>procs = (\<lambda>argv.
         if argv = [''sh'', ''-c'', ''systemctl --user list-units --type=socket --all'']
         then \<lparr>launched = True, exit_code = 1, chunks = [(Stderr, ''Failed to connect to bus'')]\<rparr>
         else \<lparr>launched = True, exit_code = 0, chunks = [(Stdout, ''a.service loaded active running A'')]\<rparr>),
       files = Map.empty, writable = (\<lambda>name. True), regular = (\<lambda>name. True), trace = []\<rparr>"



definition ex_login :: request where
  "ex_login = ex_request\<lparr>req_method := ''POST'', req_path := ''/login'',
     req_body := Some (JObject [(''username'', JString ''admin''), (''password'', JString ''secret'')])\<rparr>"

definition ex_login_wrong :: request where
  "ex_login_wrong = ex_request\<lparr>req_method := ''POST'', req_path := ''/login'',
     req_body := Some (JObject [(''username'', JString ''admin''), (''password'', JString ''guess'')])\<rparr>"

definition ex_login_empty_object :: request where
  "ex_login_empty_object = ex_request\<lparr>req_method := ''POST'', req_path := ''/login'',
     req_body := Some (JObject [])\<rparr>"

definition ex_list :: request where
  "ex_list = ex_request\<lparr>req_method := ''GET'', req_path := ''/system/services''\<rparr>"




definition ex_server_limited :: server where
  "ex_server_limited = ex_server\<lparr>generalLimiterStore := [''10.0.0.1'' \<mapsto> (10, 60)]\<rparr>"

definition ex_login_long_s :: request where
  "ex_login_long_s = ex_request\<lparr>req_method := ''POST'', req_path := ''/login'',
     req_body := Some (JObject [(''u'' @ [CHR 0xC5, CHR 0xBF] @ ''ername'', JNumber 5)])\<rparr>"

definition ex_ten :: server where
  "ex_ten = snd (serve_all ex_config main_router (ex_login_wrong # replicate 9 ex_login_wrong) ex_server)"

definition ex_eleven :: server where
  "ex_eleven = snd (ServeHTTP ex_config main_router (ex_login_wrong\<lparr>req_time := 59\<rparr>) ex_ten)"

section \<open>Properties of the string functions\<close>

lemma Split_nonempty: "Split s sep \<noteq> []"
  by (induction s) (auto split: list.splits)

lemma fields_from_parts:
  "f \<in> set (fields_from cur s) \<Longrightarrow> \<forall>c \<in> set cur. \<not> isSpace c \<Longrightarrow>
     f \<noteq> [] \<and> (\<forall>c \<in> set f. \<not> isSpace c)"
proof (induction s arbitrary: cur)
  case Nil
  then show ?case by (cases "cur = []") simp_all
next
  case (Cons a s)
  have ih: "f \<in> set (fields_from [] s) \<Longrightarrow> f \<noteq> [] \<and> (\<forall>c \<in> set f. \<not> isSpace c)"
    using Cons.IH [of "[]"] by simp
  show ?case
  proof (cases "isSpace a")
    case True
    show ?thesis
    proof (cases "cur = []")
      case True
      with \<open>isSpace a\<close> Cons.prems have "f \<in> set (fields_from [] s)" by simp
      then show ?thesis by (rule ih)
    next
      case False
      with \<open>isSpace a\<close> Cons.prems have "f = cur \<or> f \<in> set (fields_from [] s)" by simp
      then show ?thesis using ih Cons.prems(2) False by blast
    qed
  next
    case False
    with Cons.prems have "f \<in> set (fields_from (cur @ [a]) s)" by simp
    moreover have "\<forall>c \<in> set (cur @ [a]). \<not> isSpace c"
      using False Cons.prems(2) by simp
    ultimately show ?thesis by (rule Cons.IH)
  qed
qed

lemma Fields_parts: "f \<in> set (Fields s) \<Longrightarrow> f \<noteq> [] \<and> (\<forall>c \<in> set f. \<not> isSpace c)"
  using fields_from_parts [of f "[]" s] by (simp add: Fields_def)

lemma Contains_sublist: "Contains s substr = sublist substr s"
  by (induction s) (auto simp: sublist_Cons_right)

section \<open>The unit parser: proofs\<close>

lemma hd_is_first: "5 \<le> length fs \<Longrightarrow> hd fs = fs ! 0"
  by (cases fs) simp_all

lemma parseUnits_loop_acc:
  "parseUnits_loop t ls acc =
     acc @ map spec_unit_of (filter (spec_line_ok t) (map Fields ls))"
proof (induction ls arbitrary: acc)
  case Nil
  then show ?case by simp
next
  case (Cons l ls)
  show ?case
  proof (cases "spec_line_ok t (Fields l)")
    case True
    then have "\<not> length (Fields l) < 5" and "Contains (Fields l ! 0) t"
      using hd_is_first [of "Fields l"] by (simp_all add: spec_line_ok_def)
    then show ?thesis
      using True by (simp add: Let_def spec_unit_of_def Cons.IH)
  next
    case False
    then have "length (Fields l) < 5 \<or> \<not> Contains (Fields l ! 0) t"
      using hd_is_first [of "Fields l"] by (auto simp: spec_line_ok_def)
    then show ?thesis
    proof
      assume "length (Fields l) < 5"
      then show ?thesis using False by (simp add: Cons.IH)
    next
      assume "\<not> Contains (Fields l ! 0) t"
      then show ?thesis using False by (simp add: Let_def Cons.IH)
    qed
  qed
qed

text \<open>
  Claim C4. For every listing and suffix, \<open>parseUnits\<close> returns no error and exactly the
  units of the lines that have at least five white-space separated fields and whose first
  field contains the suffix, in the order of the lines: name, load, active and sub are the
  first four fields, the description is the remaining fields joined by single spaces. The
  lines are the pieces of the listing between line feeds, the fields those of
  \<open>Fields\<close>; every other line contributes nothing.
\<close>

theorem parseUnits_filters_lines:
  "parseUnits listing sfx = Inr (spec_parse listing sfx)"
  by (simp add: parseUnits_def spec_parse_def parseUnits_loop_acc)

text \<open>
  A listing with a header line, two well-formed service lines, a socket line and a line of
  three fields yields exactly the two service units, in their order.
\<close>

theorem parseUnits_filters_lines_witness:
  "parseUnits ex_listing ''.service'' =
     Inr [\<lparr>UNIT = ''a.service'', LOAD = ''loaded'', ACTIVE = ''active'', SUB = ''running'',
            DESCRIPTION = ''A daemon''\<rparr>,
          \<lparr>UNIT = ''b.service'', LOAD = ''loaded'', ACTIVE = ''inactive'', SUB = ''dead'',
            DESCRIPTION = ''B''\<rparr>]"
  by (simp add: parseUnits_filters_lines spec_parse_def ex_listing_def newline_def Fields_def
        isSpace_def spec_line_ok_def spec_unit_of_def)

section \<open>The process executor\<close>

lemma executeCommand_result:
  "executeCommand command wd =
     (if \<not> launched (procs wd [''sh'', ''-c'', command]) then Inl LaunchError
      else if exit_code (procs wd [''sh'', ''-c'', command]) \<noteq> 0
           then Inl (ExitError (exit_code (procs wd [''sh'', ''-c'', command])))
      else Inr (stdout_of (procs wd [''sh'', ''-c'', command])),
      wd\<lparr>trace := trace wd @ [Exec [''sh'', ''-c'', command]]\<rparr>)"
  by (simp add: executeCommand_def cmd_Output_def Let_def)

text \<open>
  Claim C8, as amended. For every command line, \<open>executeCommand\<close> runs it through a shell
  (\<open>sh -c\<close>) and, when the process was started and exited with status 0, returns what the
  command wrote on its standard output; what it wrote on its standard error is not part of
  the result. Otherwise it returns an error.
\<close>

theorem executeCommand_returns_stdout:
  "(succeeded (procs wd [''sh'', ''-c'', command]) \<longrightarrow>
      fst (executeCommand command wd) = Inr (stdout_of (procs wd [''sh'', ''-c'', command]))) \<and>
   (\<not> succeeded (procs wd [''sh'', ''-c'', command]) \<longrightarrow>
      (\<exists>err. fst (executeCommand command wd) = Inl err)) \<and>
   snd (executeCommand command wd) = wd\<lparr>trace := trace wd @ [Exec [''sh'', ''-c'', command]]\<rparr>"
  by (simp add: executeCommand_result succeeded_def)

theorem executeCommand_returns_stdout_witness:
  "succeeded (procs ex_world [''sh'', ''-c'', ''ls'']) \<and>
   fst (executeCommand ''ls'' ex_world) = Inr ''a'' \<and>
   trace (snd (executeCommand ''ls'' ex_world)) = [Exec [''sh'', ''-c'', ''ls'']] \<and>
   \<not> succeeded (procs ex_world_sockets_fail
         [''sh'', ''-c'', ''systemctl --user list-units --type=socket --all'']) \<and>
   fst (executeCommand ''systemctl --user list-units --type=socket --all'' ex_world_sockets_fail) =
     Inl (ExitError 1)"
  using executeCommand_returns_stdout [of ex_world "''ls''"]
    executeCommand_returns_stdout [of ex_world_sockets_fail
      "''systemctl --user list-units --type=socket --all''"]
  by (simp add: executeCommand_result ex_world_def ex_world_sockets_fail_def ex_proc_def
        succeeded_def stdout_of_def)

text \<open>
  The claim as it was stated fails: a command that succeeds after writing \<open>a\<close> on its
  standard output and \<open>b\<close> on its standard error yields \<open>a\<close>, not the combined output.
\<close>

theorem executeCommand_combined_counterexample:
  "succeeded (procs ex_world [''sh'', ''-c'', ''ls'']) \<and>
   fst (executeCommand ''ls'' ex_world) \<noteq> Inr (combined_of (procs ex_world [''sh'', ''-c'', ''ls'']))"
  by (simp add: executeCommand_result ex_world_def ex_proc_def succeeded_def stdout_of_def
        combined_of_def)

section \<open>The command handlers\<close>

lemma status_http_Error [simp]: "status (http_Error w msg code) = code"
  by (simp add: http_Error_def Header_Set_def)

lemma body_http_Error [simp]: "body (http_Error w msg code) = Text msg"
  by (simp add: http_Error_def Header_Set_def)

lemma cookie_http_Error [simp]: "cookie (http_Error w msg code) = cookie w"
  by (simp add: http_Error_def Header_Set_def)

text \<open>
  Claim C5. \<open>ListServices\<close> answers with the two sequences, under the keys \<open>services\<close> and
  \<open>sockets\<close>, exactly when both listing commands succeed; when either fails the answer is
  a 500 whose body is the plain error text, with no units in it.
\<close>

theorem ListServices_all_or_nothing:
  "(succeeded (procs wd [''sh'', ''-c'', ''systemctl --user list-units --type=service --all'']) \<and>
    succeeded (procs wd [''sh'', ''-c'', ''systemctl --user list-units --type=socket --all'']) \<longrightarrow>
      (\<exists>services sockets.
         parseUnits (stdout_of (procs wd [''sh'', ''-c'', ''systemctl --user list-units --type=service --all'']))
           ''.service'' = Inr services \<and>
         parseUnits (stdout_of (procs wd [''sh'', ''-c'', ''systemctl --user list-units --type=socket --all'']))
           ''.socket'' = Inr sockets \<and>
         fst (ListServices r w wd) =
           Encode (Header_Set ''Content-Type'' ''application/json'' w)
             (JObject [(''services'', JArray (map unit_json services)),
                       (''sockets'', JArray (map unit_json sockets))]))) \<and>
   (\<not> (succeeded (procs wd [''sh'', ''-c'', ''systemctl --user list-units --type=service --all'']) \<and>
       succeeded (procs wd [''sh'', ''-c'', ''systemctl --user list-units --type=socket --all''])) \<longrightarrow>
      status (fst (ListServices r w wd)) = StatusInternalServerError \<and>
      (body (fst (ListServices r w wd)) = Text ''Error fetching services'' \<or>
       body (fst (ListServices r w wd)) = Text ''Error fetching sockets''))"
  by (simp add: ListServices_def executeCommand_result succeeded_def parseUnits_def)

text \<open>
  Where both listings succeed the body holds both sequences; where the service listing
  succeeds and the socket listing exits with status 1, the answer is the 500 alone.
\<close>

theorem ListServices_all_or_nothing_witness:
  "body (fst (ListServices ex_request new_response ex_world)) =
     Json (JObject [(''services'', JArray []), (''sockets'', JArray [])]) \<and>
   status (fst (ListServices ex_request new_response ex_world_sockets_fail)) = 500 \<and>
   body (fst (ListServices ex_request new_response ex_world_sockets_fail)) = Text ''Error fetching sockets''"
  using ListServices_all_or_nothing [of ex_world ex_request new_response]
        ListServices_all_or_nothing [of ex_world_sockets_fail ex_request new_response]
  by (simp add: ListServices_def executeCommand_result ex_world_def ex_world_sockets_fail_def
        ex_proc_def succeeded_def stdout_of_def parseUnits_def newline_def Fields_def isSpace_def
        Encode_def rune_size_def byte_in_def StatusInternalServerError_def)

lemma missing_StartService:
  "Query_Get r ''target'' = '''' \<Longrightarrow>
     StartService r w wd = (http_Error w ''Service name is required'' StatusBadRequest, wd)"
  by (simp add: StartService_def)

lemma missing_StopService:
  "Query_Get r ''target'' = '''' \<Longrightarrow>
     StopService r w wd = (http_Error w ''Service name is required'' StatusBadRequest, wd)"
  by (simp add: StopService_def)

lemma missing_RestartService:
  "Query_Get r ''target'' = '''' \<Longrightarrow>
     RestartService r w wd = (http_Error w ''Service name is required'' StatusBadRequest, wd)"
  by (simp add: RestartService_def)

lemma missing_WriteFile:
  "Query_Get r ''filename'' = '''' \<or> Query_Get r ''filepath'' = '''' \<or> Query_Get r ''filecontent'' = '''' \<Longrightarrow>
     WriteFile r w wd =
       (http_Error w ''Filename, filepath, and filecontent are required'' StatusBadRequest, wd)"
  by (auto simp: WriteFile_def)

lemma missing_ReadFile:
  "Query_Get r ''filename'' = '''' \<or> Query_Get r ''filepath'' = '''' \<Longrightarrow>
     ReadFile r w wd = (http_Error w ''Filename and filepath are required'' StatusBadRequest, wd)"
  by (auto simp: ReadFile_def)

lemma missing_ScheduleTask:
  "Query_Get r ''time'' = '''' \<or> Query_Get r ''command'' = '''' \<Longrightarrow>
     ScheduleTask r w wd = (http_Error w ''Both time and command are required'' StatusBadRequest, wd)"
  by (auto simp: ScheduleTask_def)

text \<open>
  Claim C3. For every command handler and every request in which one of its required
  parameters is absent or empty, the handler answers 400 and leaves the server as it was: the
  environment, with its files and its trace of processes started and files read or
  written, is unchanged, hence no process is started, no file is read or written and no
  task is scheduled; no session cookie is written either.
\<close>

theorem missing_parameter_bad_request:
  assumes "list_ex (\<lambda>p. Query_Get r p = '''') (spec_required e)"
  shows "status (fst (endpoint_handler cfg e r w s)) = StatusBadRequest \<and>
         cookie (fst (endpoint_handler cfg e r w s)) = cookie w \<and>
         snd (endpoint_handler cfg e r w s) = s"
proof (cases e)
  case E_StartService
  with assms show ?thesis by (simp add: on_env_def missing_StartService)
next
  case E_StopService
  with assms show ?thesis by (simp add: on_env_def missing_StopService)
next
  case E_RestartService
  with assms show ?thesis by (simp add: on_env_def missing_RestartService)
next
  case E_WriteFile
  with assms show ?thesis by (simp add: on_env_def missing_WriteFile)
next
  case E_ReadFile
  with assms show ?thesis by (simp add: on_env_def missing_ReadFile)
next
  case E_ScheduleTask
  with assms show ?thesis by (simp add: on_env_def missing_ScheduleTask)
qed (use assms in simp_all)

text \<open>A write request without \<open>filepath\<close>: 400, and nothing in the trace.\<close>

theorem missing_parameter_bad_request_witness:
  "list_ex (\<lambda>p. Query_Get (ex_request\<lparr>req_query := [(''filename'', ''a.txt''), (''filecontent'', ''hello'')]\<rparr>) p = '''')
     (spec_required E_WriteFile) \<and>
   status (fst (endpoint_handler ex_config E_WriteFile
      (ex_request\<lparr>req_query := [(''filename'', ''a.txt''), (''filecontent'', ''hello'')]\<rparr>)
      new_response ex_server)) = 400 \<and>
   trace (env (snd (endpoint_handler ex_config E_WriteFile
      (ex_request\<lparr>req_query := [(''filename'', ''a.txt''), (''filecontent'', ''hello'')]\<rparr>)
      new_response ex_server))) = []"
proof -
  have h: "list_ex (\<lambda>p. Query_Get (ex_request\<lparr>req_query := [(''filename'', ''a.txt''), (''filecontent'', ''hello'')]\<rparr>) p = '''')
     (spec_required E_WriteFile)"
    by (simp add: Query_Get_def ex_request_def)
  show ?thesis
    using h missing_parameter_bad_request [OF h, of ex_config new_response ex_server]
    by (simp add: StatusBadRequest_def ex_server_def ex_world_def)
qed





section \<open>Login, sessions and the routers\<close>

lemma Decode_pair:
  "Decode (Some (JObject [(''username'', JString u), (''password'', JString p)])) =
     Inr \<lparr>Username = u, Password = p\<rparr>"
  by (simp add: Decode_def ascii_lower_def)

lemma cookie_Header_Set [simp]: "cookie (Header_Set k v w) = cookie w"
  by (simp add: Header_Set_def)

lemma status_Header_Set [simp]: "status (Header_Set k v w) = status w"
  by (simp add: Header_Set_def)

lemma cookie_Encode [simp]: "cookie (Encode w v) = cookie w"
  by (simp add: Encode_def)

lemma cookie_WriteHeader [simp]: "cookie (WriteHeader c w) = cookie w"
  by (simp add: WriteHeader_def)

lemma status_WriteHeader [simp]: "status (WriteHeader c w) = c"
  by (simp add: WriteHeader_def)

lemma main_routes:
  "routes main_router =
     [\<lparr>rt_path = ''/login'', rt_methods = [''POST'', ''OPTIONS''], rt_middlewares = [M_loginLimiter],
       rt_endpoint = E_loginHandler\<rparr>,
      \<lparr>rt_path = ''/version'', rt_methods = [''GET'', ''OPTIONS''], rt_middlewares = [M_isAuthenticated],
       rt_endpoint = E_versionHandler\<rparr>,
      \<lparr>rt_path = ''/login'', rt_methods = [''OPTIONS''], rt_middlewares = [], rt_endpoint = E_optionsHandler\<rparr>,
      \<lparr>rt_path = ''/version'', rt_methods = [''OPTIONS''], rt_middlewares = [], rt_endpoint = E_optionsHandler\<rparr>]"
  by (simp add: main_router_def Let_def Use_def Handle_def NewRouter_def)

lemma main_middlewares:
  "middlewares main_router = [M_cors, M_securityHeaders, M_generalLimiter]"
  by (simp add: main_router_def Let_def Use_def Handle_def NewRouter_def)

lemma limiter_Handler_cases:
  "limiter_Handler rate get put next r w s =
     (if fst (limiter_Get rate (req_time r) (req_remote r) (get s))
      then (http_Error w ''Limit exceeded'' StatusTooManyRequests,
            put (snd (limiter_Get rate (req_time r) (req_remote r) (get s))) s)
      else next r w (put (snd (limiter_Get rate (req_time r) (req_remote r) (get s))) s))"
  by (simp add: limiter_Handler_def split: prod.splits)

lemma login_post_served:
  assumes "req_method r = ''POST''" and "req_path r = ''/login''"
  shows "ServeHTTP cfg main_router r s =
           cors_Handler (securityHeadersMiddleware (generalLimiterMiddleware (loginLimiterMiddleware
             (\<lambda>r w s. (loginHandler cfg r w, s))))) r new_response s"
  using assms by (simp add: ServeHTTP_def main_routes main_middlewares route_matches_def)

text \<open>
  Claim C2. For every pair of user name and password other than the configured pair, the
  login handler, given that pair as the JSON body, answers 401 and changes nothing: the
  server state is as before and no session cookie is written. Through the router of
  \<open>main\<close>, such a \<open>POST /login\<close> is answered 401 by the handler, unless a rate
  limiter has already rejected it with 429; in both cases no session cookie is written and
  the environment is unchanged.
\<close>

theorem login_wrong_credentials:
  assumes "(u, p) \<noteq> (USERNAME cfg, PASSWORD cfg)"
    and "req_body r = Some (JObject [(''username'', JString u), (''password'', JString p)])"
  shows "endpoint_handler cfg E_loginHandler r w s =
           (http_Error w ''Invalid username or password'' StatusUnauthorized, s) \<and>
         status (fst (endpoint_handler cfg E_loginHandler r w s)) = StatusUnauthorized \<and>
         cookie (fst (endpoint_handler cfg E_loginHandler r w s)) = cookie w \<and>
         (req_method r = ''POST'' \<and> req_path r = ''/login'' \<longrightarrow>
            (status (fst (ServeHTTP cfg main_router r s)) = StatusUnauthorized \<or>
             status (fst (ServeHTTP cfg main_router r s)) = StatusTooManyRequests) \<and>
            cookie (fst (ServeHTTP cfg main_router r s)) = None \<and>
            env (snd (ServeHTTP cfg main_router r s)) = env s)"
proof -
  have login: "loginHandler cfg r w' = http_Error w' ''Invalid username or password'' StatusUnauthorized"
    for w'
    using assms by (auto simp: loginHandler_def Decode_pair)
  have "req_method r = ''POST'' \<Longrightarrow> \<not> is_preflight r"
    by (simp add: is_preflight_def)
  then show ?thesis
    by (simp add: login login_post_served cors_Handler_def securityHeadersMiddleware_def
          generalLimiterMiddleware_def loginLimiterMiddleware_def limiter_Handler_cases
          new_response_def)
qed

text \<open>A wrong password for the configured user: 401 and no session cookie.\<close>

theorem login_wrong_credentials_witness:
  "(''admin'', ''guess'') \<noteq> (USERNAME ex_config, PASSWORD ex_config) \<and>
   req_body ex_login_wrong = Some (JObject [(''username'', JString ''admin''), (''password'', JString ''guess'')]) \<and>
   status (fst (ServeHTTP ex_config main_router ex_login_wrong ex_server)) = 401 \<and>
   cookie (fst (ServeHTTP ex_config main_router ex_login_wrong ex_server)) = None"
proof -
  have differ: "(''admin'', ''guess'') \<noteq> (USERNAME ex_config, PASSWORD ex_config)"
    by (simp add: ex_config_def)
  have payload: "req_body ex_login_wrong =
      Some (JObject [(''username'', JString ''admin''), (''password'', JString ''guess'')])"
    by (simp add: ex_login_wrong_def ex_request_def)
  have admitted: "status (fst (ServeHTTP ex_config main_router ex_login_wrong ex_server)) \<noteq> StatusTooManyRequests"
    by (simp add: login_post_served ex_login_wrong_def ex_request_def ex_server_def
          cors_Handler_def is_preflight_def securityHeadersMiddleware_def
          generalLimiterMiddleware_def loginLimiterMiddleware_def limiter_Handler_cases
          limiter_Get_def generalRate_def loginRate_def loginHandler_def Decode_pair ex_config_def
          StatusTooManyRequests_def StatusUnauthorized_def)
  show ?thesis
    using differ payload admitted
      login_wrong_credentials [OF differ payload, of new_response ex_server]
    by (simp add: ex_login_wrong_def ex_request_def StatusUnauthorized_def)
qed

lemma mistyped_pair:
  "mistyped_member (k, v) =
     ((foldName k = ''username'' \<or> foldName k = ''password'') \<and> \<not> string_or_null v)"
  by (simp add: mistyped_member_def)

lemma decode_object_error:
  "snd (decode_object kvs c e) =
     (if e \<noteq> None then e
      else if list_ex mistyped_member kvs then Some UnmarshalTypeError else None)"
proof (induction kvs arbitrary: c e)
  case Nil
  then show ?case by simp
next
  case (Cons kv kvs)
  obtain k v where kv: "kv = (k, v)" by (cases kv)
  show ?case
    unfolding kv
    by (cases v) (simp_all add: Cons.IH mistyped_pair string_or_null_def)
qed

lemma Decode_error_iff: "(\<exists>err. Decode b = Inl err) = undecodable b"
proof (cases b)
  case None
  then show ?thesis by (simp add: Decode_def undecodable_def)
next
  case (Some v)
  show ?thesis
  proof (cases v)
    case (JObject kvs)
    have "snd (decode_object kvs \<lparr>Username = '''', Password = ''''\<rparr> None) =
        (if list_ex mistyped_member kvs then Some UnmarshalTypeError else None)"
      by (simp add: decode_object_error)
    then show ?thesis
      unfolding Some JObject
      by (cases "decode_object kvs \<lparr>Username = '''', Password = ''''\<rparr> None")
         (auto simp: Decode_def undecodable_def split: option.splits)
  qed (simp_all add: Some Decode_def undecodable_def)
qed

lemma decode_object_Username:
  "\<not> list_ex (\<lambda>kv. foldName (fst kv) = ''username'') kvs \<Longrightarrow>
     Username (fst (decode_object kvs c e)) = Username c"
proof (induction kvs arbitrary: c e)
  case Nil
  then show ?case by simp
next
  case (Cons kv kvs)
  obtain k v where kv: "kv = (k, v)" by (cases kv)
  from Cons.prems have "foldName k \<noteq> ''username''"
    and rest: "\<not> list_ex (\<lambda>kv. foldName (fst kv) = ''username'') kvs"
    by (simp_all add: kv)
  then show ?case
    unfolding kv by (cases v) (simp_all add: Cons.IH [OF rest])
qed

lemma decode_object_Password:
  "\<not> list_ex (\<lambda>kv. foldName (fst kv) = ''password'') kvs \<Longrightarrow>
     Password (fst (decode_object kvs c e)) = Password c"
proof (induction kvs arbitrary: c e)
  case Nil
  then show ?case by simp
next
  case (Cons kv kvs)
  obtain k v where kv: "kv = (k, v)" by (cases kv)
  from Cons.prems have "foldName k \<noteq> ''password''"
    and rest: "\<not> list_ex (\<lambda>kv. foldName (fst kv) = ''password'') kvs"
    by (simp_all add: kv)
  then show ?case
    unfolding kv by (cases v) (simp_all add: Cons.IH [OF rest])
qed

lemma loginHandler_accepted:
  assumes "Decode (req_body r) = Inr c"
  shows "(Username c = USERNAME cfg \<and> Password c = PASSWORD cfg \<longrightarrow>
            cookie (loginHandler cfg r w) = Some [''user'' \<mapsto> USERNAME cfg] \<and>
            status (loginHandler cfg r w) = status w) \<and>
         (\<not> (Username c = USERNAME cfg \<and> Password c = PASSWORD cfg) \<longrightarrow>
            loginHandler cfg r w = http_Error w ''Invalid username or password'' StatusUnauthorized)"
  using assms
  by (simp add: loginHandler_def Let_def session_Save_def store_Get_def Encode_def Header_Set_def)

lemma Decode_lacking_field:
  assumes "b = Some JNull \<or>
           b = Some (JObject kvs) \<and>
           (\<not> list_ex (\<lambda>kv. foldName (fst kv) = ''username'') kvs \<or>
            \<not> list_ex (\<lambda>kv. foldName (fst kv) = ''password'') kvs)"
    and "Decode b = Inr c"
  shows "Username c = '''' \<or> Password c = ''''"
proof -
  from assms(1) consider "b = Some JNull"
    | "b = Some (JObject kvs)" "\<not> list_ex (\<lambda>kv. foldName (fst kv) = ''username'') kvs"
    | "b = Some (JObject kvs)" "\<not> list_ex (\<lambda>kv. foldName (fst kv) = ''password'') kvs"
    by blast
  then show ?thesis
  proof cases
    case 1
    with assms(2) show ?thesis by (auto simp: Decode_def)
  next
    case 2
    have "Username (fst (decode_object kvs \<lparr>Username = '''', Password = ''''\<rparr> None)) = ''''"
      using decode_object_Username [OF 2(2)] by simp
    with assms(2) 2(1) show ?thesis
      by (auto simp: Decode_def split: prod.splits option.splits)
  next
    case 3
    have "Password (fst (decode_object kvs \<lparr>Username = '''', Password = ''''\<rparr> None)) = ''''"
      using decode_object_Password [OF 3(2)] by simp
    with assms(2) 3(1) show ?thesis
      by (auto simp: Decode_def split: prod.splits option.splits)
  qed
qed

text \<open>
  Claim C10, as amended. The decoder rejects exactly the bodies that do not start with a
  well-formed JSON value, that are a JSON value other than an object or \<open>null\<close>, or that
  are an object in which a member whose key matches \<open>username\<close> or \<open>password\<close> under
  the decoder's case folding has a value that is neither a string nor \<open>null\<close>. For every
  login request with such a body the handler answers 400, whatever the configured credentials
  are (no comparison takes place), writes no session cookie and leaves the server as it was.
  A body that the decoder accepts is never answered 400: its credentials are compared with
  the configured pair, giving the login when they match and 401 otherwise; an accepted body
  that is \<open>null\<close>, or an object without a \<open>username\<close> or without a \<open>password\<close> member
  (such as the empty object), has that field empty and is answered 401.
\<close>

theorem login_undecodable_bad_request:
  "((\<exists>err. Decode (req_body r) = Inl err) = undecodable (req_body r)) \<and>
   (undecodable (req_body r) \<longrightarrow>
      endpoint_handler cfg E_loginHandler r w s =
        (http_Error w ''Invalid request payload'' StatusBadRequest, s) \<and>
      status (fst (endpoint_handler cfg E_loginHandler r w s)) = StatusBadRequest \<and>
      cookie (fst (endpoint_handler cfg E_loginHandler r w s)) = cookie w \<and>
      endpoint_handler cfg' E_loginHandler r w s = endpoint_handler cfg E_loginHandler r w s) \<and>
   (\<not> undecodable (req_body r) \<longrightarrow>
      (\<exists>c. Decode (req_body r) = Inr c \<and>
         (Username c = USERNAME cfg \<and> Password c = PASSWORD cfg \<longrightarrow>
            cookie (fst (endpoint_handler cfg E_loginHandler r w s)) = Some [''user'' \<mapsto> USERNAME cfg] \<and>
            status (fst (endpoint_handler cfg E_loginHandler r w s)) = status w) \<and>
         (\<not> (Username c = USERNAME cfg \<and> Password c = PASSWORD cfg) \<longrightarrow>
            endpoint_handler cfg E_loginHandler r w s =
              (http_Error w ''Invalid username or password'' StatusUnauthorized, s)))) \<and>
   (init_ok cfg \<and> \<not> undecodable (req_body r) \<and>
    (req_body r = Some JNull \<or>
     req_body r = Some (JObject kvs) \<and>
     (\<not> list_ex (\<lambda>kv. foldName (fst kv) = ''username'') kvs \<or>
      \<not> list_ex (\<lambda>kv. foldName (fst kv) = ''password'') kvs)) \<longrightarrow>
      endpoint_handler cfg E_loginHandler r w s =
        (http_Error w ''Invalid username or password'' StatusUnauthorized, s))"
proof -
  have iff: "(\<exists>err. Decode (req_body r) = Inl err) = undecodable (req_body r)"
    by (rule Decode_error_iff)
  have rejected: "endpoint_handler cfg E_loginHandler r w s =
        (http_Error w ''Invalid request payload'' StatusBadRequest, s) \<and>
      status (fst (endpoint_handler cfg E_loginHandler r w s)) = StatusBadRequest \<and>
      cookie (fst (endpoint_handler cfg E_loginHandler r w s)) = cookie w \<and>
      endpoint_handler cfg' E_loginHandler r w s = endpoint_handler cfg E_loginHandler r w s"
    if "undecodable (req_body r)"
  proof -
    from that iff obtain err where "Decode (req_body r) = Inl err"
      by blast
    then show ?thesis
      by (simp add: loginHandler_def)
  qed
  have decoded: "\<exists>c. Decode (req_body r) = Inr c" if "\<not> undecodable (req_body r)"
    using that iff by (cases "Decode (req_body r)") auto
  have accepted: "\<exists>c. Decode (req_body r) = Inr c \<and>
         (Username c = USERNAME cfg \<and> Password c = PASSWORD cfg \<longrightarrow>
            cookie (fst (endpoint_handler cfg E_loginHandler r w s)) = Some [''user'' \<mapsto> USERNAME cfg] \<and>
            status (fst (endpoint_handler cfg E_loginHandler r w s)) = status w) \<and>
         (\<not> (Username c = USERNAME cfg \<and> Password c = PASSWORD cfg) \<longrightarrow>
            endpoint_handler cfg E_loginHandler r w s =
              (http_Error w ''Invalid username or password'' StatusUnauthorized, s))"
    if "\<not> undecodable (req_body r)"
  proof -
    from decoded [OF that] obtain c where c: "Decode (req_body r) = Inr c" ..
    from loginHandler_accepted [OF c, of cfg w] c show ?thesis
      by auto
  qed
  have lacking: "endpoint_handler cfg E_loginHandler r w s =
        (http_Error w ''Invalid username or password'' StatusUnauthorized, s)"
    if "init_ok cfg" and "\<not> undecodable (req_body r)"
      and "req_body r = Some JNull \<or>
           req_body r = Some (JObject kvs) \<and>
           (\<not> list_ex (\<lambda>kv. foldName (fst kv) = ''username'') kvs \<or>
            \<not> list_ex (\<lambda>kv. foldName (fst kv) = ''password'') kvs)"
  proof -
    from decoded [OF that(2)] obtain c where c: "Decode (req_body r) = Inr c" ..
    from Decode_lacking_field [OF that(3) c] have "Username c = '''' \<or> Password c = ''''" .
    with that(1) have "\<not> (Username c = USERNAME cfg \<and> Password c = PASSWORD cfg)"
      by (auto simp: init_ok_def)
    with loginHandler_accepted [OF c, of cfg w] show ?thesis
      by simp
  qed
  from iff rejected accepted lacking show ?thesis
    by blast
qed

text \<open>
  A request without a body and an object whose \<open>username\<close>, spelled with the long s, is a
  number are answered 400; the empty object is answered 401; the configured pair logs in.
\<close>

theorem login_undecodable_bad_request_witness:
  "undecodable (req_body ex_request) \<and>
   status (fst (endpoint_handler ex_config E_loginHandler ex_request new_response ex_server)) = 400 \<and>
   cookie (fst (endpoint_handler ex_config E_loginHandler ex_request new_response ex_server)) = None \<and>
   undecodable (req_body ex_login_long_s) \<and>
   status (fst (endpoint_handler ex_config E_loginHandler ex_login_long_s new_response ex_server)) = 400 \<and>
   \<not> undecodable (req_body ex_login_empty_object) \<and>
   status (fst (endpoint_handler ex_config E_loginHandler ex_login_empty_object new_response ex_server)) = 401 \<and>
   \<not> undecodable (req_body ex_login) \<and>
   cookie (fst (endpoint_handler ex_config E_loginHandler ex_login new_response ex_server)) =
     Some [''user'' \<mapsto> ''admin'']"
proof -
  have no_body: "undecodable (req_body ex_request)"
    by (simp add: undecodable_def ex_request_def)
  have long_s: "undecodable (req_body ex_login_long_s)"
    by (simp add: undecodable_def mistyped_member_def string_or_null_def ascii_lower_def
          ex_login_long_s_def ex_request_def)
  have empty_object: "init_ok ex_config \<and> \<not> undecodable (req_body ex_login_empty_object) \<and>
      (req_body ex_login_empty_object = Some JNull \<or>
       req_body ex_login_empty_object = Some (JObject []) \<and>
       (\<not> list_ex (\<lambda>kv. foldName (fst kv) = ''username'') [] \<or>
        \<not> list_ex (\<lambda>kv. foldName (fst kv) = ''password'') []))"
    by (simp add: undecodable_def ex_login_empty_object_def ex_request_def init_ok_def ex_config_def)
  have pair: "\<not> undecodable (req_body ex_login) \<and>
      Decode (req_body ex_login) = Inr \<lparr>Username = ''admin'', Password = ''secret''\<rparr>"
    by (simp add: undecodable_def mistyped_member_def string_or_null_def ascii_lower_def
          ex_login_def ex_request_def Decode_def)
  show ?thesis
    using no_body long_s empty_object pair
      login_undecodable_bad_request [of ex_request ex_config new_response ex_server ex_config "[]"]
      login_undecodable_bad_request [of ex_login_long_s ex_config new_response ex_server ex_config "[]"]
      login_undecodable_bad_request [of ex_login_empty_object ex_config new_response ex_server ex_config "[]"]
      login_undecodable_bad_request [of ex_login ex_config new_response ex_server ex_config "[]"]
    by (simp add: StatusBadRequest_def StatusUnauthorized_def new_response_def ex_config_def)
qed

text \<open>
  The claim as it was stated fails for a body that is a JSON object without the two fields:
  the decoder accepts \<open>{}\<close>, leaving both fields empty, the comparison takes place and
  the answer is 401, not 400.
\<close>

theorem login_empty_object_counterexample:
  "init_ok ex_config \<and>
   req_body ex_login_empty_object = Some (JObject []) \<and>
   \<not> undecodable (req_body ex_login_empty_object) \<and>
   status (fst (endpoint_handler ex_config E_loginHandler ex_login_empty_object new_response ex_server)) = 401 \<and>
   status (fst (endpoint_handler ex_config E_loginHandler ex_login_empty_object new_response ex_server)) \<noteq> 400"
  by (simp add: loginHandler_def Decode_def undecodable_def ex_login_empty_object_def ex_request_def
        ex_config_def init_ok_def StatusUnauthorized_def)

lemma cookie_ok_http_Error [simp]: "cookie_ok cfg (http_Error w msg code) = cookie_ok cfg w"
  by (simp add: cookie_ok_def)

lemma cookie_ok_Header_Set [simp]: "cookie_ok cfg (Header_Set k v w) = cookie_ok cfg w"
  by (simp add: cookie_ok_def)

lemma cookie_ok_WriteHeader [simp]: "cookie_ok cfg (WriteHeader c w) = cookie_ok cfg w"
  by (simp add: cookie_ok_def)

lemma cookie_ok_Encode [simp]: "cookie_ok cfg (Encode w v) = cookie_ok cfg w"
  by (simp add: cookie_ok_def)

lemma loginHandler_cookie_ok: "cookie_ok cfg w \<Longrightarrow> cookie_ok cfg (loginHandler cfg r w)"
  by (simp add: loginHandler_def Let_def session_Save_def store_Get_def split: sum.splits)
     (simp add: cookie_ok_def identity_ok_def Encode_def Header_Set_def)

lemma cookie_ListServices: "cookie (fst (ListServices r w wd)) = cookie w"
  by (simp add: ListServices_def executeCommand_result parseUnits_def)

lemma cmd_Run_cases:
  "cmd_Run argv wd =
     (if succeeded (procs wd argv) then None
      else Some (if launched (procs wd argv) then ExitError (exit_code (procs wd argv)) else LaunchError),
      wd\<lparr>trace := trace wd @ [Exec argv]\<rparr>)"
  by (simp add: cmd_Run_def Let_def succeeded_def)

lemma cookie_StartService: "cookie (fst (StartService r w wd)) = cookie w"
  by (simp add: StartService_def cmd_Run_cases Let_def)

lemma cookie_StopService: "cookie (fst (StopService r w wd)) = cookie w"
  by (simp add: StopService_def cmd_Run_cases Let_def)

lemma cookie_RestartService: "cookie (fst (RestartService r w wd)) = cookie w"
  by (simp add: RestartService_def cmd_Run_cases Let_def)

lemma cookie_WriteFile: "cookie (fst (WriteFile r w wd)) = cookie w"
  by (simp add: WriteFile_def os_WriteFile_def Let_def)

lemma cookie_ReadFile: "cookie (fst (ReadFile r w wd)) = cookie w"
  by (simp add: ReadFile_def os_ReadFile_def Let_def split: option.splits)

lemma cookie_ScheduleTask: "cookie (fst (ScheduleTask r w wd)) = cookie w"
  by (simp add: ScheduleTask_def executeCommand_result Let_def)

lemma fst_on_env: "fst (on_env h r w s) = fst (h r w (env s))"
  by (simp add: on_env_def split: prod.splits)

lemma cookie_ok_cong: "cookie w' = cookie w \<Longrightarrow> cookie_ok cfg w' = cookie_ok cfg w"
  by (simp add: cookie_ok_def)

lemma endpoint_cookie_ok:
  assumes "cookie_ok cfg w"
  shows "cookie_ok cfg (fst (endpoint_handler cfg e r w s))"
proof (cases e)
  case E_loginHandler
  then show ?thesis using assms by (simp add: loginHandler_cookie_ok)
next
  case E_versionHandler
  then show ?thesis using assms by (simp add: versionHandler_def)
next
  case E_optionsHandler
  then show ?thesis using assms by (simp add: optionsHandler_def)
next
  case E_ListServices
  then show ?thesis using assms by (simp add: fst_on_env cookie_ok_cong [OF cookie_ListServices])
next
  case E_StartService
  then show ?thesis using assms by (simp add: fst_on_env cookie_ok_cong [OF cookie_StartService])
next
  case E_StopService
  then show ?thesis using assms by (simp add: fst_on_env cookie_ok_cong [OF cookie_StopService])
next
  case E_RestartService
  then show ?thesis using assms by (simp add: fst_on_env cookie_ok_cong [OF cookie_RestartService])
next
  case E_WriteFile
  then show ?thesis using assms by (simp add: fst_on_env cookie_ok_cong [OF cookie_WriteFile])
next
  case E_ReadFile
  then show ?thesis using assms by (simp add: fst_on_env cookie_ok_cong [OF cookie_ReadFile])
next
  case E_ScheduleTask
  then show ?thesis using assms by (simp add: fst_on_env cookie_ok_cong [OF cookie_ScheduleTask])
qed

lemma middleware_cookie_ok:
  assumes "\<And>r w s. cookie_ok cfg w \<Longrightarrow> cookie_ok cfg (fst (h r w s))"
    and "cookie_ok cfg w"
  shows "cookie_ok cfg (fst (middleware_fn m h r w s))"
  using assms
  by (cases m)
     (simp_all add: cors_Handler_def securityHeadersMiddleware_def generalLimiterMiddleware_def
        loginLimiterMiddleware_def systemLimiterMiddleware_def limiter_Handler_cases
        isAuthenticated_def Let_def)

lemma wrap_cookie_ok:
  "cookie_ok cfg w \<Longrightarrow> cookie_ok cfg (fst (wrap ms (endpoint_handler cfg e) r w s))"
proof (induction ms arbitrary: r w s)
  case Nil
  then show ?case by (simp add: endpoint_cookie_ok)
next
  case (Cons m ms)
  show ?case
    unfolding wrap.simps
    by (rule middleware_cookie_ok) (use Cons in simp_all)
qed

lemma ServeHTTP_cookie_ok: "cookie_ok cfg (fst (ServeHTTP cfg rt r s))"
proof -
  have "cookie_ok cfg new_response"
    by (simp add: cookie_ok_def new_response_def)
  then show ?thesis
    by (simp add: ServeHTTP_def wrap_cookie_ok split: option.splits)
qed

lemma issued_identity_ok: "held \<in> issued cfg rt \<Longrightarrow> identity_ok cfg held"
proof (induction rule: issued.induct)
  case no_cookie
  show ?case by (simp add: identity_ok_def)
next
  case (answered held r s w s')
  have "cookie_ok cfg (fst (ServeHTTP cfg rt r s))"
    by (rule ServeHTTP_cookie_ok)
  with answered show ?case
    by (simp add: next_session_def cookie_ok_def split: option.splits)
qed

text \<open>
  Claim C9. A session that can exist (one that the server wrote in answer to a request whose
  own session could exist, starting from no session at all) carries either no identity or
  exactly the configured \<open>USERNAME\<close>; no request to any router over these handlers and
  middlewares makes the server write a session cookie with another identity; hence, for such
  a session, the gate \<open>isAuthenticated\<close>, which tests only the presence of an identity,
  lets the request through exactly when the identity is \<open>USERNAME\<close>.
\<close>

theorem session_identity_invariant:
  assumes "held \<in> issued cfg rt"
  shows "(held ''user'' = None \<or> held ''user'' = Some (USERNAME cfg)) \<and>
         (\<forall>session. cookie (fst (ServeHTTP cfg rt r s)) = Some session \<longrightarrow>
            session ''user'' = None \<or> session ''user'' = Some (USERNAME cfg)) \<and>
         (req_session r' = held \<longrightarrow>
            isAuthenticated next r' w s =
              (if held ''user'' = Some (USERNAME cfg) then next r' w s
               else (http_Error w ''Unauthorized'' StatusUnauthorized, s)))"
proof -
  have ok: "held ''user'' = None \<or> held ''user'' = Some (USERNAME cfg)"
    using issued_identity_ok [OF assms] by (simp add: identity_ok_def)
  have "cookie_ok cfg (fst (ServeHTTP cfg rt r s))"
    by (rule ServeHTTP_cookie_ok)
  then have written: "\<forall>session. cookie (fst (ServeHTTP cfg rt r s)) = Some session \<longrightarrow>
      session ''user'' = None \<or> session ''user'' = Some (USERNAME cfg)"
    by (simp add: cookie_ok_def identity_ok_def split: option.splits)
  have gate: "req_session r' = held \<longrightarrow>
      isAuthenticated next r' w s =
        (if held ''user'' = Some (USERNAME cfg) then next r' w s
         else (http_Error w ''Unauthorized'' StatusUnauthorized, s))"
    using ok by (auto simp: isAuthenticated_def store_Get_def)
  from ok written gate show ?thesis by blast
qed

text \<open>
  After a successful login the client holds the session with the identity \<open>admin\<close>, the
  configured user name, and the gate lets its requests through.
\<close>

theorem session_identity_invariant_witness:
  "[''user'' \<mapsto> ''admin''] \<in> issued ex_config main_router \<and>
   ([''user'' \<mapsto> ''admin''] :: session_values) ''user'' = Some (USERNAME ex_config) \<and>
   cookie (fst (ServeHTTP ex_config main_router ex_login ex_server)) = Some [''user'' \<mapsto> ''admin''] \<and>
   isAuthenticated (endpoint_handler ex_config E_versionHandler)
      (ex_request\<lparr>req_session := [''user'' \<mapsto> ''admin'']\<rparr>) new_response ex_server =
     endpoint_handler ex_config E_versionHandler
      (ex_request\<lparr>req_session := [''user'' \<mapsto> ''admin'']\<rparr>) new_response ex_server"
proof -
  have written: "cookie (fst (ServeHTTP ex_config main_router ex_login ex_server)) =
      Some [''user'' \<mapsto> ''admin'']"
    by (simp add: login_post_served ex_login_def ex_request_def ex_server_def
          cors_Handler_def is_preflight_def securityHeadersMiddleware_def
          generalLimiterMiddleware_def loginLimiterMiddleware_def limiter_Handler_cases
          limiter_Get_def generalRate_def loginRate_def loginHandler_def Decode_pair ex_config_def
          Let_def session_Save_def store_Get_def)
  then have after: "next_session Map.empty (fst (ServeHTTP ex_config main_router ex_login ex_server)) =
      [''user'' \<mapsto> ''admin'']"
    by (simp add: next_session_def)
  have "next_session Map.empty (fst (ServeHTTP ex_config main_router ex_login ex_server))
          \<in> issued ex_config main_router"
    by (rule issued.answered [OF issued.no_cookie, where r = ex_login and s = ex_server
          and s' = "snd (ServeHTTP ex_config main_router ex_login ex_server)"])
       (simp_all add: ex_login_def ex_request_def)
  then have mem: "[''user'' \<mapsto> ''admin''] \<in> issued ex_config main_router"
    by (simp only: after)
  show ?thesis
    using mem written
      session_identity_invariant [OF mem, of ex_login ex_server
        "ex_request\<lparr>req_session := [''user'' \<mapsto> ''admin'']\<rparr>"
        "endpoint_handler ex_config E_versionHandler" new_response]
    by (simp add: ex_config_def)
qed

section \<open>The routes under /system\<close>

lemma system_subroutes:
  "routes (RegisterSystemRoutes NewRouter) =
     [\<lparr>rt_path = ''/system/services'', rt_methods = [''GET''], rt_middlewares = [M_systemLimiter],
       rt_endpoint = E_ListServices\<rparr>,
      \<lparr>rt_path = ''/system/services/start'', rt_methods = [''POST''], rt_middlewares = [M_systemLimiter],
       rt_endpoint = E_StartService\<rparr>,
      \<lparr>rt_path = ''/system/services/stop'', rt_methods = [''POST''], rt_middlewares = [M_systemLimiter],
       rt_endpoint = E_StopService\<rparr>,
      \<lparr>rt_path = ''/system/services/restart'', rt_methods = [''POST''], rt_middlewares = [M_systemLimiter],
       rt_endpoint = E_RestartService\<rparr>,
      \<lparr>rt_path = ''/system/write'', rt_methods = [''POST''], rt_middlewares = [M_systemLimiter],
       rt_endpoint = E_WriteFile\<rparr>,
      \<lparr>rt_path = ''/system/read'', rt_methods = [''GET''], rt_middlewares = [M_systemLimiter],
       rt_endpoint = E_ReadFile\<rparr>,
      \<lparr>rt_path = ''/system/at'', rt_methods = [''POST''], rt_middlewares = [M_systemLimiter],
       rt_endpoint = E_ScheduleTask\<rparr>]"
  by (simp add: RegisterSystemRoutes_def Subrouter_def Let_def Use_def Handle_def NewRouter_def)

lemma RegisterSystemRoutes_routes:
  "routes (RegisterSystemRoutes r) = routes r @ routes (RegisterSystemRoutes NewRouter)"
  by (simp add: RegisterSystemRoutes_def Subrouter_def Let_def Use_def Handle_def NewRouter_def)

lemma RegisterSystemRoutes_middlewares:
  "middlewares (RegisterSystemRoutes r) = middlewares r"
  by (simp add: RegisterSystemRoutes_def Subrouter_def Let_def)

lemma main_no_system_route:
  assumes "prefix ''/system'' (req_path r)"
  shows "ServeHTTP cfg main_router r s =
           (http_Error new_response ''404 page not found'' StatusNotFound, s)"
proof -
  from assms obtain rest where "req_path r = ''/system'' @ rest"
    by (auto simp: prefix_def)
  then show ?thesis
    by (simp add: ServeHTTP_def main_routes route_matches_def)
qed

lemma status_Encode [simp]: "status (Encode w v) = status w"
  by (simp add: Encode_def)

lemma status_ListServices:
  "status (fst (ListServices r w wd)) = status w \<or>
   status (fst (ListServices r w wd)) = StatusInternalServerError"
  by (simp add: ListServices_def executeCommand_result parseUnits_def)

lemma status_StartService:
  "status (fst (StartService r w wd)) = status w \<or>
   status (fst (StartService r w wd)) = StatusBadRequest \<or>
   status (fst (StartService r w wd)) = StatusInternalServerError"
  by (simp add: StartService_def cmd_Run_cases Let_def)

lemma status_StopService:
  "status (fst (StopService r w wd)) = status w \<or>
   status (fst (StopService r w wd)) = StatusBadRequest \<or>
   status (fst (StopService r w wd)) = StatusInternalServerError"
  by (simp add: StopService_def cmd_Run_cases Let_def)

lemma status_RestartService:
  "status (fst (RestartService r w wd)) = status w \<or>
   status (fst (RestartService r w wd)) = StatusBadRequest \<or>
   status (fst (RestartService r w wd)) = StatusInternalServerError"
  by (simp add: RestartService_def cmd_Run_cases Let_def)

lemma status_WriteFile:
  "status (fst (WriteFile r w wd)) = status w \<or>
   status (fst (WriteFile r w wd)) = StatusBadRequest \<or>
   status (fst (WriteFile r w wd)) = StatusInternalServerError"
  by (simp add: WriteFile_def os_WriteFile_def Let_def)

lemma status_ReadFile:
  "status (fst (ReadFile r w wd)) = status w \<or>
   status (fst (ReadFile r w wd)) = StatusBadRequest \<or>
   status (fst (ReadFile r w wd)) = StatusInternalServerError"
  by (simp add: ReadFile_def os_ReadFile_def Let_def split: option.splits)

lemma status_ScheduleTask:
  "status (fst (ScheduleTask r w wd)) = status w \<or>
   status (fst (ScheduleTask r w wd)) = StatusBadRequest \<or>
   status (fst (ScheduleTask r w wd)) = StatusInternalServerError"
  by (simp add: ScheduleTask_def executeCommand_result Let_def)

lemma command_handler_status:
  assumes "List.member [E_ListServices, E_StartService, E_StopService, E_RestartService,
             E_WriteFile, E_ReadFile, E_ScheduleTask] e"
    and "status w = StatusOK"
  shows "status (fst (endpoint_handler cfg e r w s)) \<noteq> StatusUnauthorized"
proof -
  have codes: "StatusOK \<noteq> StatusUnauthorized" "StatusBadRequest \<noteq> StatusUnauthorized"
    "StatusInternalServerError \<noteq> StatusUnauthorized"
    by (simp_all add: StatusOK_def StatusBadRequest_def StatusInternalServerError_def
          StatusUnauthorized_def)
  from assms(1) consider "e = E_ListServices" | "e = E_StartService" | "e = E_StopService"
    | "e = E_RestartService" | "e = E_WriteFile" | "e = E_ReadFile" | "e = E_ScheduleTask"
    by auto
  then show ?thesis
  proof cases
    case 1
    then show ?thesis
      using status_ListServices [of r w "env s"] assms(2) codes by (auto simp: fst_on_env)
  next
    case 2
    then show ?thesis
      using status_StartService [of r w "env s"] assms(2) codes by (auto simp: fst_on_env)
  next
    case 3
    then show ?thesis
      using status_StopService [of r w "env s"] assms(2) codes by (auto simp: fst_on_env)
  next
    case 4
    then show ?thesis
      using status_RestartService [of r w "env s"] assms(2) codes by (auto simp: fst_on_env)
  next
    case 5
    then show ?thesis
      using status_WriteFile [of r w "env s"] assms(2) codes by (auto simp: fst_on_env)
  next
    case 6
    then show ?thesis
      using status_ReadFile [of r w "env s"] assms(2) codes by (auto simp: fst_on_env)
  next
    case 7
    then show ?thesis
      using status_ScheduleTask [of r w "env s"] assms(2) codes by (auto simp: fst_on_env)
  qed
qed

lemma find_app:
  "find P (xs @ ys) = (case find P xs of None \<Rightarrow> find P ys | Some x \<Rightarrow> Some x)"
  by (induction xs) simp_all

lemma find_SomeD: "find P xs = Some x \<Longrightarrow> x \<in> set xs \<and> P x"
  by (induction xs) (auto split: if_splits)

lemma system_route_served:
  assumes "find (route_matches r) (routes (RegisterSystemRoutes NewRouter)) = Some x"
  shows "ServeHTTP cfg (RegisterSystemRoutes main_router) r s =
           securityHeadersMiddleware (generalLimiterMiddleware (systemLimiterMiddleware
             (endpoint_handler cfg (rt_endpoint x)))) r new_response s"
proof -
  have x: "x \<in> set (routes (RegisterSystemRoutes NewRouter))"
    and path: "rt_path x = req_path r" and meth: "req_method r \<in> set (rt_methods x)"
    using find_SomeD [OF assms] by (simp_all add: route_matches_def)
  have wrapped: "rt_middlewares x = [M_systemLimiter]"
    using x by (auto simp: system_subroutes)
  have "req_method r = ''GET'' \<or> req_method r = ''POST''"
    using x meth by (auto simp: system_subroutes)
  then have not_preflight: "\<not> is_preflight r"
    by (auto simp: is_preflight_def)
  have "prefix ''/system'' (rt_path x)"
    using x by (auto simp: system_subroutes)
  then obtain rest where rest: "req_path r = ''/system'' @ rest"
    using path by (auto simp: prefix_def)
  then have none: "find (route_matches r) (routes main_router) = None"
    by (simp add: main_routes route_matches_def)
  have "find (route_matches r) (routes (RegisterSystemRoutes main_router)) = Some x"
    using none assms by (simp add: RegisterSystemRoutes_routes [of main_router] find_app)
  then show ?thesis
    using not_preflight wrapped
    by (simp add: ServeHTTP_def RegisterSystemRoutes_middlewares main_middlewares cors_Handler_def)
qed

lemma gated_routes:
  "filter (\<lambda>x. M_isAuthenticated \<in> set (rt_middlewares x)) (routes (RegisterSystemRoutes main_router)) =
     [\<lparr>rt_path = ''/version'', rt_methods = [''GET'', ''OPTIONS''],
       rt_middlewares = [M_isAuthenticated], rt_endpoint = E_versionHandler\<rparr>]"
  by (simp add: RegisterSystemRoutes_routes [of main_router] main_routes system_subroutes)

lemma system_endpoints:
  assumes "x \<in> set (routes (RegisterSystemRoutes NewRouter))"
  shows "List.member [E_ListServices, E_StartService, E_StopService, E_RestartService,
           E_WriteFile, E_ReadFile, E_ScheduleTask] (rt_endpoint x)"
  using assms by (auto simp: system_subroutes)

lemma status_securityHeaders_writer:
  "status (Header_Set ''X-XSS-Protection'' ''1; mode=block''
       (Header_Set ''X-Frame-Options'' ''DENY''
       (Header_Set ''X-Content-Type-Options'' ''nosniff''
       (Header_Set ''Strict-Transport-Security'' ''max-age=63072000; includeSubDomains; preload''
       (Header_Set ''Content-Security-Policy'' (''default-src '' @ [squote] @ ''self'' @ [squote])
          new_response))))) = StatusOK"
  by (simp add: new_response_def)

text \<open>
  Claim C1, as amended. \<open>main\<close> never calls \<open>RegisterSystemRoutes\<close>: the router it builds
  answers every request to a system route (the path and method of a route that
  \<open>RegisterSystemRoutes\<close> registers) 404, running no handler and changing nothing. In the
  router that \<open>RegisterSystemRoutes\<close> makes of the router of \<open>main\<close>, such a request,
  whatever session it carries and so also with no identity, is never answered 401, and is
  handed to the route's handler (inside the security-headers middleware, the two limiters
  having counted it) whenever the general and the system rate limiter admit it; when one of
  them does not, the request is answered 429 and the environment is left as it was. The only
  route wrapped by the gate \<open>isAuthenticated\<close> is the \<open>/version\<close> route, and the gate is
  not a middleware of the router.
\<close>

theorem system_routes_not_gated:
  "filter (\<lambda>x. M_isAuthenticated \<in> set (rt_middlewares x)) (routes (RegisterSystemRoutes main_router)) =
     [\<lparr>rt_path = ''/version'', rt_methods = [''GET'', ''OPTIONS''],
       rt_middlewares = [M_isAuthenticated], rt_endpoint = E_versionHandler\<rparr>] \<and>
   M_isAuthenticated \<notin> set (middlewares (RegisterSystemRoutes main_router)) \<and>
   (find (route_matches r) (routes (RegisterSystemRoutes NewRouter)) = Some x \<longrightarrow>
      ServeHTTP cfg main_router r s =
        (http_Error new_response ''404 page not found'' StatusNotFound, s) \<and>
      status (fst (ServeHTTP cfg (RegisterSystemRoutes main_router) r s)) \<noteq> StatusUnauthorized \<and>
      (\<not> fst (limiter_Get generalRate (req_time r) (req_remote r) (generalLimiterStore s)) \<and>
       \<not> fst (limiter_Get systemRate (req_time r) (req_remote r) (systemLimiterStore s)) \<longrightarrow>
         ServeHTTP cfg (RegisterSystemRoutes main_router) r s =
           securityHeadersMiddleware (endpoint_handler cfg (rt_endpoint x)) r new_response
             (s\<lparr>generalLimiterStore :=
                  snd (limiter_Get generalRate (req_time r) (req_remote r) (generalLimiterStore s)),
                systemLimiterStore :=
                  snd (limiter_Get systemRate (req_time r) (req_remote r) (systemLimiterStore s))\<rparr>)) \<and>
      (fst (limiter_Get generalRate (req_time r) (req_remote r) (generalLimiterStore s)) \<or>
       fst (limiter_Get systemRate (req_time r) (req_remote r) (systemLimiterStore s)) \<longrightarrow>
         status (fst (ServeHTTP cfg (RegisterSystemRoutes main_router) r s)) = StatusTooManyRequests \<and>
         body (fst (ServeHTTP cfg (RegisterSystemRoutes main_router) r s)) = Text ''Limit exceeded'' \<and>
         cookie (fst (ServeHTTP cfg (RegisterSystemRoutes main_router) r s)) = None \<and>
         env (snd (ServeHTTP cfg (RegisterSystemRoutes main_router) r s)) = env s))"
proof -
  have router_gate: "M_isAuthenticated \<notin> set (middlewares (RegisterSystemRoutes main_router))"
    by (simp add: RegisterSystemRoutes_middlewares main_middlewares)
  have served: "ServeHTTP cfg main_router r s =
        (http_Error new_response ''404 page not found'' StatusNotFound, s) \<and>
      status (fst (ServeHTTP cfg (RegisterSystemRoutes main_router) r s)) \<noteq> StatusUnauthorized \<and>
      (\<not> fst (limiter_Get generalRate (req_time r) (req_remote r) (generalLimiterStore s)) \<and>
       \<not> fst (limiter_Get systemRate (req_time r) (req_remote r) (systemLimiterStore s)) \<longrightarrow>
         ServeHTTP cfg (RegisterSystemRoutes main_router) r s =
           securityHeadersMiddleware (endpoint_handler cfg (rt_endpoint x)) r new_response
             (s\<lparr>generalLimiterStore :=
                  snd (limiter_Get generalRate (req_time r) (req_remote r) (generalLimiterStore s)),
                systemLimiterStore :=
                  snd (limiter_Get systemRate (req_time r) (req_remote r) (systemLimiterStore s))\<rparr>)) \<and>
      (fst (limiter_Get generalRate (req_time r) (req_remote r) (generalLimiterStore s)) \<or>
       fst (limiter_Get systemRate (req_time r) (req_remote r) (systemLimiterStore s)) \<longrightarrow>
         status (fst (ServeHTTP cfg (RegisterSystemRoutes main_router) r s)) = StatusTooManyRequests \<and>
         body (fst (ServeHTTP cfg (RegisterSystemRoutes main_router) r s)) = Text ''Limit exceeded'' \<and>
         cookie (fst (ServeHTTP cfg (RegisterSystemRoutes main_router) r s)) = None \<and>
         env (snd (ServeHTTP cfg (RegisterSystemRoutes main_router) r s)) = env s)"
    if match: "find (route_matches r) (routes (RegisterSystemRoutes NewRouter)) = Some x"
  proof -
    have member: "List.member [E_ListServices, E_StartService, E_StopService, E_RestartService,
           E_WriteFile, E_ReadFile, E_ScheduleTask] (rt_endpoint x)"
      using find_SomeD [OF match] by (simp only: system_endpoints)
    have "prefix ''/system'' (rt_path x)"
      using find_SomeD [OF match] by (auto simp: system_subroutes)
    moreover have "rt_path x = req_path r"
      using find_SomeD [OF match] by (simp add: route_matches_def)
    ultimately have main_alone: "ServeHTTP cfg main_router r s =
        (http_Error new_response ''404 page not found'' StatusNotFound, s)"
      by (simp add: main_no_system_route)
    have limited: "StatusTooManyRequests \<noteq> StatusUnauthorized"
      by (simp add: StatusTooManyRequests_def StatusUnauthorized_def)
    have dispatched:
      "status (fst (ServeHTTP cfg (RegisterSystemRoutes main_router) r s)) \<noteq> StatusUnauthorized \<and>
      (\<not> fst (limiter_Get generalRate (req_time r) (req_remote r) (generalLimiterStore s)) \<and>
       \<not> fst (limiter_Get systemRate (req_time r) (req_remote r) (systemLimiterStore s)) \<longrightarrow>
         ServeHTTP cfg (RegisterSystemRoutes main_router) r s =
           securityHeadersMiddleware (endpoint_handler cfg (rt_endpoint x)) r new_response
             (s\<lparr>generalLimiterStore :=
                  snd (limiter_Get generalRate (req_time r) (req_remote r) (generalLimiterStore s)),
                systemLimiterStore :=
                  snd (limiter_Get systemRate (req_time r) (req_remote r) (systemLimiterStore s))\<rparr>))"
      unfolding system_route_served [OF match]
      using command_handler_status [OF member status_securityHeaders_writer] limited
      by (simp add: securityHeadersMiddleware_def generalLimiterMiddleware_def
            systemLimiterMiddleware_def limiter_Handler_cases)
    have rejected:
      "fst (limiter_Get generalRate (req_time r) (req_remote r) (generalLimiterStore s)) \<or>
       fst (limiter_Get systemRate (req_time r) (req_remote r) (systemLimiterStore s)) \<longrightarrow>
         status (fst (ServeHTTP cfg (RegisterSystemRoutes main_router) r s)) = StatusTooManyRequests \<and>
         body (fst (ServeHTTP cfg (RegisterSystemRoutes main_router) r s)) = Text ''Limit exceeded'' \<and>
         cookie (fst (ServeHTTP cfg (RegisterSystemRoutes main_router) r s)) = None \<and>
         env (snd (ServeHTTP cfg (RegisterSystemRoutes main_router) r s)) = env s"
      unfolding system_route_served [OF match]
      by (simp add: securityHeadersMiddleware_def generalLimiterMiddleware_def
            systemLimiterMiddleware_def limiter_Handler_cases new_response_def)
    from main_alone dispatched rejected show ?thesis by blast
  qed
  from gated_routes router_gate served show ?thesis by blast
qed

text \<open>
  With the system routes registered, \<open>GET /system/services\<close> without any session is served
  by \<open>ListServices\<close>, which runs its two listing commands; on the router of \<open>main\<close> alone
  it is a 404; and when the client has used up its ten requests of the minute it is a 429.
\<close>

theorem system_routes_not_gated_witness:
  "req_session ex_list ''user'' = None \<and>
   find (route_matches ex_list) (routes (RegisterSystemRoutes NewRouter)) =
     Some \<lparr>rt_path = ''/system/services'', rt_methods = [''GET''], rt_middlewares = [M_systemLimiter],
            rt_endpoint = E_ListServices\<rparr> \<and>
   status (fst (ServeHTTP ex_config main_router ex_list ex_server)) = 404 \<and>
   status (fst (ServeHTTP ex_config (RegisterSystemRoutes main_router) ex_list ex_server)) = 200 \<and>
   trace (env (snd (ServeHTTP ex_config (RegisterSystemRoutes main_router) ex_list ex_server))) =
     [Exec [''sh'', ''-c'', ''systemctl --user list-units --type=service --all''],
      Exec [''sh'', ''-c'', ''systemctl --user list-units --type=socket --all'']] \<and>
   fst (limiter_Get generalRate (req_time ex_list) (req_remote ex_list)
         (generalLimiterStore ex_server_limited)) \<and>
   status (fst (ServeHTTP ex_config (RegisterSystemRoutes main_router) ex_list ex_server_limited)) = 429"
proof -
  have match: "find (route_matches ex_list) (routes (RegisterSystemRoutes NewRouter)) =
     Some \<lparr>rt_path = ''/system/services'', rt_methods = [''GET''], rt_middlewares = [M_systemLimiter],
            rt_endpoint = E_ListServices\<rparr>"
    by (simp add: system_subroutes route_matches_def ex_list_def ex_request_def)
  have admitted:
    "\<not> fst (limiter_Get generalRate (req_time ex_list) (req_remote ex_list) (generalLimiterStore ex_server)) \<and>
     \<not> fst (limiter_Get systemRate (req_time ex_list) (req_remote ex_list) (systemLimiterStore ex_server))"
    by (simp add: limiter_Get_def generalRate_def systemRate_def ex_server_def)
  have used_up: "fst (limiter_Get generalRate (req_time ex_list) (req_remote ex_list)
         (generalLimiterStore ex_server_limited))"
    by (simp add: limiter_Get_def generalRate_def ex_server_limited_def ex_server_def ex_list_def
          ex_request_def)
  note inst = system_routes_not_gated [of ex_list
        "\<lparr>rt_path = ''/system/services'', rt_methods = [''GET''], rt_middlewares = [M_systemLimiter],
            rt_endpoint = E_ListServices\<rparr>" ex_config ex_server]
  note inst_limited = system_routes_not_gated [of ex_list
        "\<lparr>rt_path = ''/system/services'', rt_methods = [''GET''], rt_middlewares = [M_systemLimiter],
            rt_endpoint = E_ListServices\<rparr>" ex_config ex_server_limited]
  have "ServeHTTP ex_config (RegisterSystemRoutes main_router) ex_list ex_server =
      securityHeadersMiddleware (endpoint_handler ex_config E_ListServices) ex_list new_response
        (ex_server\<lparr>generalLimiterStore :=
             snd (limiter_Get generalRate (req_time ex_list) (req_remote ex_list) (generalLimiterStore ex_server)),
           systemLimiterStore :=
             snd (limiter_Get systemRate (req_time ex_list) (req_remote ex_list) (systemLimiterStore ex_server))\<rparr>)"
    using inst match admitted by simp
  moreover have "status (fst (ServeHTTP ex_config main_router ex_list ex_server)) = 404"
    using inst match by (simp add: StatusNotFound_def)
  moreover have "status (fst (ServeHTTP ex_config (RegisterSystemRoutes main_router) ex_list
      ex_server_limited)) = 429"
    using inst_limited match used_up by (simp add: StatusTooManyRequests_def)
  ultimately show ?thesis
    using match used_up
    by (simp add: securityHeadersMiddleware_def on_env_def ListServices_def executeCommand_result
          ex_server_def ex_world_def ex_proc_def parseUnits_def new_response_def ex_list_def
          ex_request_def StatusOK_def)
qed

text \<open>
  The claim as it was stated fails in two ways. On the router that \<open>main\<close> composes, a
  \<open>GET /system/services\<close> without a session is answered 404 and the server is left as it
  was, while the handler, had it been reached, would have started the listing commands. And
  with the system routes registered, the same request from a client that has used up its ten
  requests of the minute is answered 429 by the general limiter and does not reach the
  handler either: nothing is started.
\<close>

theorem system_route_unregistered_counterexample:
  "req_session ex_list ''user'' = None \<and>
   ServeHTTP ex_config main_router ex_list ex_server =
     (http_Error new_response ''404 page not found'' StatusNotFound, ex_server) \<and>
   trace (env (snd (endpoint_handler ex_config E_ListServices ex_list new_response ex_server))) \<noteq>
     trace (env ex_server) \<and>
   status (fst (ServeHTTP ex_config (RegisterSystemRoutes main_router) ex_list ex_server_limited)) =
     StatusTooManyRequests \<and>
   trace (env (snd (ServeHTTP ex_config (RegisterSystemRoutes main_router) ex_list ex_server_limited))) =
     trace (env ex_server_limited)"
proof -
  have match: "find (route_matches ex_list) (routes (RegisterSystemRoutes NewRouter)) =
     Some \<lparr>rt_path = ''/system/services'', rt_methods = [''GET''], rt_middlewares = [M_systemLimiter],
            rt_endpoint = E_ListServices\<rparr>"
    by (simp add: system_subroutes route_matches_def ex_list_def ex_request_def)
  have unregistered: "req_session ex_list ''user'' = None \<and>
     ServeHTTP ex_config main_router ex_list ex_server =
       (http_Error new_response ''404 page not found'' StatusNotFound, ex_server) \<and>
     trace (env (snd (endpoint_handler ex_config E_ListServices ex_list new_response ex_server))) \<noteq>
       trace (env ex_server)"
    by (simp add: ServeHTTP_def main_routes route_matches_def ex_list_def ex_request_def
          on_env_def ListServices_def executeCommand_result ex_server_def ex_world_def ex_proc_def
          parseUnits_def)
  have limited: "status (fst (ServeHTTP ex_config (RegisterSystemRoutes main_router) ex_list
        ex_server_limited)) = StatusTooManyRequests \<and>
     trace (env (snd (ServeHTTP ex_config (RegisterSystemRoutes main_router) ex_list ex_server_limited))) =
       trace (env ex_server_limited)"
    unfolding system_route_served [OF match]
    by (simp add: securityHeadersMiddleware_def generalLimiterMiddleware_def
          systemLimiterMiddleware_def limiter_Handler_cases limiter_Get_def generalRate_def
          ex_server_limited_def ex_server_def ex_list_def ex_request_def)
  from unregistered limited show ?thesis by blast
qed

section \<open>The general rate limiter\<close>

lemma snd_on_env: "snd (on_env h r w s) = s\<lparr>env := snd (h r w (env s))\<rparr>"
  by (simp add: on_env_def split: prod.splits)

lemma endpoint_keeps_general:
  "generalLimiterStore (snd (endpoint_handler cfg e r w s)) = generalLimiterStore s"
  by (cases e) (simp_all add: snd_on_env)

lemma middleware_keeps_general:
  assumes "\<And>r w s. generalLimiterStore (snd (h r w s)) = generalLimiterStore s"
    and "m \<noteq> M_generalLimiter"
  shows "generalLimiterStore (snd (middleware_fn m h r w s)) = generalLimiterStore s"
  using assms
  by (cases m)
     (simp_all add: cors_Handler_def securityHeadersMiddleware_def loginLimiterMiddleware_def
        systemLimiterMiddleware_def limiter_Handler_cases isAuthenticated_def Let_def)

lemma wrap_keeps_general:
  "M_generalLimiter \<notin> set ms \<Longrightarrow>
     generalLimiterStore (snd (wrap ms (endpoint_handler cfg e) r w s)) = generalLimiterStore s"
proof (induction ms arbitrary: r w s)
  case Nil
  show ?case by (simp add: endpoint_keeps_general)
next
  case (Cons m ms)
  then have "m \<noteq> M_generalLimiter" and "M_generalLimiter \<notin> set ms"
    by auto
  then show ?case
    unfolding wrap.simps
    by (intro middleware_keeps_general Cons.IH)
qed

lemma main_route_ungeneral:
  "x \<in> set (routes main_router) \<Longrightarrow> M_generalLimiter \<notin> set (rt_middlewares x)"
  by (auto simp: main_routes)

lemma limiter_Get_fresh:
  "\<not> window_open store k now \<Longrightarrow>
     limiter_Get rate now k store = (Limit rate < 1, store(k \<mapsto> (1, now + Period rate)))"
  by (auto simp: limiter_Get_def window_open_def split: option.splits)

lemma limiter_Get_open:
  "store k = Some (c, e) \<Longrightarrow> now < e \<Longrightarrow>
     limiter_Get rate now k store = (Limit rate < c + 1, store(k \<mapsto> (c + 1, e)))"
  by (simp add: limiter_Get_def)

lemma counted_served:
  assumes "counted main_router r"
  shows "generalLimiterStore (snd (ServeHTTP cfg main_router r s)) =
           snd (limiter_Get generalRate (req_time r) (req_remote r) (generalLimiterStore s))"
    and "fst (limiter_Get generalRate (req_time r) (req_remote r) (generalLimiterStore s)) \<Longrightarrow>
           ServeHTTP cfg main_router r s =
             (http_Error
                (fst (securityHeadersMiddleware (\<lambda>r w s. (w, s)) r new_response s))
                ''Limit exceeded'' StatusTooManyRequests,
              s\<lparr>generalLimiterStore :=
                  snd (limiter_Get generalRate (req_time r) (req_remote r) (generalLimiterStore s))\<rparr>)"
proof -
  from assms obtain x where x: "find (route_matches r) (routes main_router) = Some x"
    and np: "\<not> is_preflight r"
    by (auto simp: counted_def)
  have inner: "M_generalLimiter \<notin> set (rt_middlewares x)"
    using find_SomeD [OF x] by (simp add: main_route_ungeneral)
  have served: "ServeHTTP cfg main_router r s =
      securityHeadersMiddleware (generalLimiterMiddleware
        (wrap (rt_middlewares x) (endpoint_handler cfg (rt_endpoint x)))) r new_response s"
    using x np by (simp add: ServeHTTP_def main_middlewares cors_Handler_def)
  show "generalLimiterStore (snd (ServeHTTP cfg main_router r s)) =
           snd (limiter_Get generalRate (req_time r) (req_remote r) (generalLimiterStore s))"
    unfolding served
    by (simp add: securityHeadersMiddleware_def generalLimiterMiddleware_def limiter_Handler_cases
          wrap_keeps_general [OF inner])
  show "ServeHTTP cfg main_router r s =
             (http_Error
                (fst (securityHeadersMiddleware (\<lambda>r w s. (w, s)) r new_response s))
                ''Limit exceeded'' StatusTooManyRequests,
              s\<lparr>generalLimiterStore :=
                  snd (limiter_Get generalRate (req_time r) (req_remote r) (generalLimiterStore s))\<rparr>)"
    if "fst (limiter_Get generalRate (req_time r) (req_remote r) (generalLimiterStore s))"
    unfolding served using that
    by (simp add: securityHeadersMiddleware_def generalLimiterMiddleware_def limiter_Handler_cases)
qed

lemma snd_serve_all_Cons:
  "snd (serve_all cfg rt (r # rs) s) = snd (serve_all cfg rt rs (snd (ServeHTTP cfg rt r s)))"
  by (simp split: prod.splits)

lemma window_counts:
  assumes "list_all (\<lambda>r. req_remote r = k \<and> counted main_router r \<and> req_time r < e) rs"
    and "generalLimiterStore s k = Some (c, e)"
  shows "generalLimiterStore (snd (serve_all cfg main_router rs s)) k = Some (c + length rs, e)"
  using assms
proof (induction rs arbitrary: s c)
  case Nil
  then show ?case by simp
next
  case (Cons r rs)
  then have r: "req_remote r = k" "counted main_router r" "req_time r < e"
    and rs: "list_all (\<lambda>r. req_remote r = k \<and> counted main_router r \<and> req_time r < e) rs"
    by simp_all
  have "generalLimiterStore (snd (ServeHTTP cfg main_router r s)) k = Some (c + 1, e)"
    using r Cons.prems(2) by (simp add: counted_served(1) limiter_Get_open)
  from Cons.IH [OF rs this] show ?case
    by (simp only: snd_serve_all_Cons) simp
qed

lemma admitted_served:
  assumes "find (route_matches r) (routes main_router) = Some x"
    and "\<not> is_preflight r"
    and "\<not> fst (limiter_Get generalRate (req_time r) (req_remote r) (generalLimiterStore s))"
  shows "ServeHTTP cfg main_router r s =
           securityHeadersMiddleware (wrap (rt_middlewares x) (endpoint_handler cfg (rt_endpoint x)))
             r new_response
             (s\<lparr>generalLimiterStore :=
                  snd (limiter_Get generalRate (req_time r) (req_remote r) (generalLimiterStore s))\<rparr>)"
  using assms
  by (simp add: ServeHTTP_def main_middlewares cors_Handler_def securityHeadersMiddleware_def
        generalLimiterMiddleware_def limiter_Handler_cases)

text \<open>
  Claim C7. With the general limiter of \<open>main\<close> (10 requests per window of 60 seconds), for
  every client: when a request of the client opens a window and nine more follow within it,
  each of these ten is admitted by the general limiter, which counts it and hands it to
  the middlewares and the handler of its route; an eleventh request of the client within the
  same window is answered 429 and nothing else happens (no session cookie, the environment
  and the login limiter are untouched, so neither a handler nor the middleware of a route has
  run); and once the window has ended, a request of that client is admitted again: it opens
  a new window and is handed to its route. The requests are those that reach the limiter:
  requests that the router matches and that are not CORS preflights.
\<close>

theorem general_limiter_eleventh_request:
  assumes "\<not> window_open (generalLimiterStore s) k (req_time r1)"
    and "length rest = 9"
    and "list_all (\<lambda>r. req_remote r = k \<and> counted main_router r \<and> req_time r < req_time r1 + 60)
           (r1 # rest @ [r11])"
  shows "(r1 # rest = pre @ q # post \<and> find (route_matches q) (routes main_router) = Some x \<longrightarrow>
            ServeHTTP cfg main_router q (snd (serve_all cfg main_router pre s)) =
              securityHeadersMiddleware (wrap (rt_middlewares x) (endpoint_handler cfg (rt_endpoint x)))
                q new_response
                ((snd (serve_all cfg main_router pre s))
                   \<lparr>generalLimiterStore :=
                      (generalLimiterStore (snd (serve_all cfg main_router pre s)))
                        (k \<mapsto> (length pre + 1, req_time r1 + 60))\<rparr>)) \<and>
         status (fst (ServeHTTP cfg main_router r11 (snd (serve_all cfg main_router (r1 # rest) s)))) =
           StatusTooManyRequests \<and>
         body (fst (ServeHTTP cfg main_router r11 (snd (serve_all cfg main_router (r1 # rest) s)))) =
           Text ''Limit exceeded'' \<and>
         cookie (fst (ServeHTTP cfg main_router r11 (snd (serve_all cfg main_router (r1 # rest) s)))) =
           None \<and>
         env (snd (ServeHTTP cfg main_router r11 (snd (serve_all cfg main_router (r1 # rest) s)))) =
           env (snd (serve_all cfg main_router (r1 # rest) s)) \<and>
         loginLimiterStore (snd (ServeHTTP cfg main_router r11 (snd (serve_all cfg main_router (r1 # rest) s)))) =
           loginLimiterStore (snd (serve_all cfg main_router (r1 # rest) s)) \<and>
         (req_remote r' = k \<and> req_time r1 + 60 \<le> req_time r' \<longrightarrow>
            \<not> fst (limiter_Get generalRate (req_time r') (req_remote r')
                (generalLimiterStore
                  (snd (ServeHTTP cfg main_router r11 (snd (serve_all cfg main_router (r1 # rest) s))))))) \<and>
         (req_remote r' = k \<and> req_time r1 + 60 \<le> req_time r' \<and> \<not> is_preflight r' \<and>
          find (route_matches r') (routes main_router) = Some x' \<longrightarrow>
            ServeHTTP cfg main_router r'
                (snd (ServeHTTP cfg main_router r11 (snd (serve_all cfg main_router (r1 # rest) s)))) =
              securityHeadersMiddleware (wrap (rt_middlewares x') (endpoint_handler cfg (rt_endpoint x')))
                r' new_response
                ((snd (ServeHTTP cfg main_router r11 (snd (serve_all cfg main_router (r1 # rest) s))))
                   \<lparr>generalLimiterStore :=
                      (generalLimiterStore
                         (snd (ServeHTTP cfg main_router r11 (snd (serve_all cfg main_router (r1 # rest) s)))))
                        (k \<mapsto> (1, req_time r' + 60))\<rparr>))"
proof -
  let ?s1 = "snd (ServeHTTP cfg main_router r1 s)"
  let ?s10 = "snd (serve_all cfg main_router (r1 # rest) s)"
  let ?s11 = "snd (ServeHTTP cfg main_router r11 ?s10)"
  let ?in_window = "\<lambda>r. req_remote r = k \<and> counted main_router r \<and> req_time r < req_time r1 + 60"
  from assms(3) have r1: "req_remote r1 = k" "counted main_router r1"
    and rest: "list_all ?in_window rest"
    and r11: "req_remote r11 = k" "counted main_router r11" "req_time r11 < req_time r1 + 60"
    by simp_all
  have opened: "generalLimiterStore ?s1 k = Some (1, req_time r1 + 60)"
    using r1 assms(1) by (simp add: counted_served(1) limiter_Get_fresh generalRate_def)
  have ten: "generalLimiterStore ?s10 k = Some (10, req_time r1 + 60)"
    using window_counts [OF rest opened, where cfg = cfg] assms(2)
    by (simp only: snd_serve_all_Cons) simp
  have get: "limiter_Get generalRate (req_time r11) (req_remote r11) (generalLimiterStore ?s10) =
      (True, (generalLimiterStore ?s10)(k \<mapsto> (11, req_time r1 + 60)))"
    using r11 ten by (simp add: limiter_Get_open generalRate_def del: serve_all.simps)
  have rejected: "ServeHTTP cfg main_router r11 ?s10 =
      (http_Error (fst (securityHeadersMiddleware (\<lambda>r w s. (w, s)) r11 new_response ?s10))
         ''Limit exceeded'' StatusTooManyRequests,
       ?s10\<lparr>generalLimiterStore := (generalLimiterStore ?s10)(k \<mapsto> (11, req_time r1 + 60))\<rparr>)"
    using counted_served(2) [OF r11(2), where cfg = cfg and s = ?s10] get
    by (simp del: serve_all.simps)
  have eleven: "generalLimiterStore ?s11 k = Some (11, req_time r1 + 60)"
    by (simp add: rejected del: serve_all.simps)
  have first_ten: "ServeHTTP cfg main_router q (snd (serve_all cfg main_router pre s)) =
      securityHeadersMiddleware (wrap (rt_middlewares x) (endpoint_handler cfg (rt_endpoint x)))
        q new_response
        ((snd (serve_all cfg main_router pre s))
           \<lparr>generalLimiterStore :=
              (generalLimiterStore (snd (serve_all cfg main_router pre s)))
                (k \<mapsto> (length pre + 1, req_time r1 + 60))\<rparr>)"
    if split: "r1 # rest = pre @ q # post"
      and x: "find (route_matches q) (routes main_router) = Some x"
  proof (cases pre)
    case Nil
    with split have q: "q = r1" by simp
    have "limiter_Get generalRate (req_time q) (req_remote q) (generalLimiterStore s) =
        (False, (generalLimiterStore s)(k \<mapsto> (1, req_time r1 + 60)))"
      using r1 assms(1) by (simp add: q limiter_Get_fresh generalRate_def)
    moreover have "\<not> is_preflight q"
      using r1(2) by (simp add: q counted_def)
    ultimately show ?thesis
      using admitted_served [OF x, of s cfg] by (simp add: Nil)
  next
    case (Cons p pre')
    with split have p: "p = r1" and rest_split: "rest = pre' @ q # post"
      by simp_all
    from rest rest_split have pre': "list_all ?in_window pre'" and q: "?in_window q"
      by simp_all
    let ?sp = "snd (serve_all cfg main_router pre s)"
    have counted_pre: "generalLimiterStore ?sp k = Some (1 + length pre', req_time r1 + 60)"
      using window_counts [OF pre' opened, where cfg = cfg]
      by (simp only: Cons p snd_serve_all_Cons)
    have "length pre' < 9"
      using assms(2) rest_split by simp
    then have "limiter_Get generalRate (req_time q) (req_remote q) (generalLimiterStore ?sp) =
        (False, (generalLimiterStore ?sp)(k \<mapsto> (length pre + 1, req_time r1 + 60)))"
      using q counted_pre
      by (simp add: limiter_Get_def generalRate_def Cons del: serve_all.simps)
    moreover have "\<not> is_preflight q"
      using q by (simp add: counted_def)
    ultimately show ?thesis
      using admitted_served [OF x, of ?sp cfg] by (simp del: serve_all.simps)
  qed
  have next_get: "limiter_Get generalRate (req_time r') (req_remote r') (generalLimiterStore ?s11) =
      (False, (generalLimiterStore ?s11)(k \<mapsto> (1, req_time r' + 60)))"
    if "req_remote r' = k" and "req_time r1 + 60 \<le> req_time r'"
    using that eleven by (simp add: limiter_Get_def generalRate_def del: serve_all.simps)
  have next_window: "req_remote r' = k \<and> req_time r1 + 60 \<le> req_time r' \<longrightarrow>
      \<not> fst (limiter_Get generalRate (req_time r') (req_remote r') (generalLimiterStore ?s11))"
    using next_get by simp
  have next_served: "ServeHTTP cfg main_router r' ?s11 =
      securityHeadersMiddleware (wrap (rt_middlewares x') (endpoint_handler cfg (rt_endpoint x')))
        r' new_response
        (?s11\<lparr>generalLimiterStore := (generalLimiterStore ?s11)(k \<mapsto> (1, req_time r' + 60))\<rparr>)"
    if "req_remote r' = k" and "req_time r1 + 60 \<le> req_time r'" and "\<not> is_preflight r'"
      and x': "find (route_matches r') (routes main_router) = Some x'"
    using admitted_served [OF x' that(3), of ?s11 cfg] next_get [OF that(1,2)]
    by (simp del: serve_all.simps)
  have "status (fst (ServeHTTP cfg main_router r11 ?s10)) = StatusTooManyRequests"
    and "body (fst (ServeHTTP cfg main_router r11 ?s10)) = Text ''Limit exceeded''"
    and "cookie (fst (ServeHTTP cfg main_router r11 ?s10)) = None"
    and "env ?s11 = env ?s10" and "loginLimiterStore ?s11 = loginLimiterStore ?s10"
    by (simp_all add: rejected securityHeadersMiddleware_def new_response_def del: serve_all.simps)
  with first_ten next_window next_served show ?thesis by blast
qed

text \<open>
  Eleven login attempts of one client within the first minute: the first is answered by the
  login handler (401, the password being wrong), the eleventh is answered 429, and at second
  60 the limiter admits the client again and hands the request to the login route.
\<close>

theorem general_limiter_eleventh_request_witness:
  "\<not> window_open (generalLimiterStore ex_server) ''10.0.0.1'' (req_time ex_login_wrong) \<and>
   list_all (\<lambda>r. req_remote r = ''10.0.0.1'' \<and> counted main_router r \<and>
                   req_time r < req_time ex_login_wrong + 60)
     (ex_login_wrong # replicate 9 ex_login_wrong @ [ex_login_wrong\<lparr>req_time := 59\<rparr>]) \<and>
   status (fst (ServeHTTP ex_config main_router ex_login_wrong ex_server)) = 401 \<and>
   status (fst (ServeHTTP ex_config main_router (ex_login_wrong\<lparr>req_time := 59\<rparr>) ex_ten)) = 429 \<and>
   \<not> fst (limiter_Get generalRate 60 ''10.0.0.1'' (generalLimiterStore ex_eleven)) \<and>
   ServeHTTP ex_config main_router (ex_login_wrong\<lparr>req_time := 60\<rparr>) ex_eleven =
     securityHeadersMiddleware (wrap [M_loginLimiter] (endpoint_handler ex_config E_loginHandler))
       (ex_login_wrong\<lparr>req_time := 60\<rparr>) new_response
       (ex_eleven\<lparr>generalLimiterStore := (generalLimiterStore ex_eleven)(''10.0.0.1'' \<mapsto> (1, 120))\<rparr>)"
proof -
  let ?route = "\<lparr>rt_path = ''/login'', rt_methods = [''POST'', ''OPTIONS''],
      rt_middlewares = [M_loginLimiter], rt_endpoint = E_loginHandler\<rparr>"
  have closed: "\<not> window_open (generalLimiterStore ex_server) ''10.0.0.1'' (req_time ex_login_wrong)"
    by (simp add: window_open_def ex_server_def)
  have nine: "length (replicate 9 ex_login_wrong) = 9"
    by simp
  have one: "req_remote ex_login_wrong = ''10.0.0.1'' \<and> counted main_router ex_login_wrong \<and>
      req_time ex_login_wrong = 0"
    by (simp add: counted_def main_routes route_matches_def is_preflight_def ex_login_wrong_def
          ex_request_def)
  have last: "counted main_router (ex_login_wrong\<lparr>req_time := 59\<rparr>)"
    by (simp add: counted_def main_routes route_matches_def is_preflight_def ex_login_wrong_def
          ex_request_def)
  have all: "list_all (\<lambda>r. req_remote r = ''10.0.0.1'' \<and> counted main_router r \<and>
                   req_time r < req_time ex_login_wrong + 60)
     (ex_login_wrong # replicate 9 ex_login_wrong @ [ex_login_wrong\<lparr>req_time := 59\<rparr>])"
    using one last by (simp add: list_all_iff)
  have split: "ex_login_wrong # replicate 9 ex_login_wrong = [] @ ex_login_wrong # replicate 9 ex_login_wrong"
    by simp
  have route: "find (route_matches ex_login_wrong) (routes main_router) = Some ?route"
    by (simp add: main_routes route_matches_def ex_login_wrong_def ex_request_def)
  have route': "\<not> is_preflight (ex_login_wrong\<lparr>req_time := 60\<rparr>) \<and>
      find (route_matches (ex_login_wrong\<lparr>req_time := 60\<rparr>)) (routes main_router) = Some ?route"
    by (simp add: main_routes route_matches_def is_preflight_def ex_login_wrong_def ex_request_def)
  note inst = general_limiter_eleventh_request [OF closed nine all, of "[]" ex_login_wrong
      "replicate 9 ex_login_wrong" ?route ex_config "ex_login_wrong\<lparr>req_time := 60\<rparr>" ?route]
  have first: "ServeHTTP ex_config main_router ex_login_wrong ex_server =
      securityHeadersMiddleware (wrap [M_loginLimiter] (endpoint_handler ex_config E_loginHandler))
        ex_login_wrong new_response
        (ex_server\<lparr>generalLimiterStore := (generalLimiterStore ex_server)(''10.0.0.1'' \<mapsto> (1, 60))\<rparr>)"
    using inst split route one by (simp del: serve_all.simps(2))
  have answered: "status (fst (ServeHTTP ex_config main_router ex_login_wrong ex_server)) = 401"
    unfolding first
    by (simp add: securityHeadersMiddleware_def loginLimiterMiddleware_def limiter_Handler_cases
          limiter_Get_def loginRate_def loginHandler_def Decode_pair ex_login_wrong_def
          ex_request_def ex_server_def ex_config_def StatusUnauthorized_def)
  show ?thesis
    using closed all answered inst route' one
    by (simp add: ex_ten_def ex_eleven_def StatusTooManyRequests_def del: serve_all.simps(2))
qed

end

